theory Spec2Isabelle
  imports Complex_Main "HOL-Library.Multiset" "HOL-Library.Sublist"
begin

section \<open>Data model of the marginal value engine\<close>

text \<open>
  The records follow the interfaces of \<^verbatim>\<open>dataValue/types.ts\<close>. Field names that
  several interfaces share (\<^verbatim>\<open>id\<close>, \<^verbatim>\<open>columns\<close>, ...) carry a prefix, since record
  fields are global constants. A JavaScript \<^verbatim>\<open>number\<close> that holds a count or a
  point score is an \<open>int\<close>; a number read from the pipeline's JSON file is a
  finite double, modelled as a \<open>real\<close> (only its order is used).
\<close>

record DoseFamilyDef =
  df_id :: string
  df_label :: string
  df_columns :: "string list"
  df_unit :: string
  df_compleCategory :: string

datatype timescale = Fast | Medium | Slow

record ResponseFamilyDef =
  rf_id :: string
  rf_label :: string
  rf_columns :: "string list"
  rf_unit :: string
  rf_compleCategory :: string
  rf_biologicalTimescale :: timescale

datatype category = Metabolic | Cardio | Recovery | Sleep

record MechanismDef =
  m_id :: string
  m_name :: string
  doseFamily :: string
  responseFamily :: string
  m_category :: category
  m_mechanism :: string

record EdgeResult =
  title :: string
  source :: string
  target :: string
  curve :: string
  theta :: real
  theta_unit :: string
  theta_ci :: string
  bb :: real
  ba :: real
  bb_desc :: string
  ba_desc :: string
  effect_unit :: string
  eff_n :: real
  raw_n :: real
  personal_pct :: real

datatype narrative_type = Unlock | Boost | Confounder

record KeyEdgeNarrative =
  edgeTitle :: string
  narrative :: string
  narrativeType :: narrative_type

record CandidateDataSource =
  cand_id :: string
  cand_name :: string
  cand_icon :: string
  cand_category :: string
  description :: string
  exampleProducts :: "string list"
  newDoseFamilies :: "string list"
  newResponseFamilies :: "string list"
  newColumns :: "string list"
  frequency :: string
  keyEdgeNarratives :: "KeyEdgeNarrative list"

datatype tier = Transformative | High | Moderate | Low

record MarginalValueScore =
  candidateId :: string
  composite :: int
  newEdgesUnlocked :: int
  newEdgePoints :: int
  confoundersResolved :: int
  confounderPoints :: int
  signalBoostEdges :: int
  signalBoostPoints :: int
  tier :: tier
  unlockedMechanisms :: "MechanismDef list"
  resolvedLatentNodes :: "string list"
  boostedEdgeTitles :: "string list"

record MechanismTestability =
  mechanism :: MechanismDef
  testable :: bool
  mt_hasDoseData :: bool
  mt_hasResponseData :: bool
  missingDoseFamilies :: "string list"
  missingResponseFamilies :: "string list"

section \<open>The static mechanism catalog\<close>

text \<open>
  \<^verbatim>\<open>DOSE_FAMILIES\<close> and \<^verbatim>\<open>RESPONSE_FAMILIES\<close> are object literals of type
  \<^verbatim>\<open>Record<string, ...>\<close>; they are kept as the lists of their own properties, in
  source order. \<^verbatim>\<open>MECHANISM_CATALOG\<close> and \<^verbatim>\<open>LATENT_NODES\<close> are arrays.
\<close>

definition DOSE_FAMILIES :: "(string \<times> DoseFamilyDef) list" where
  "DOSE_FAMILIES = [
  (''running_volume'', \<lparr>df_id = ''running_volume'', df_label = ''Running Volume'',
    df_columns = [''daily_run_km'', ''run_distance_km'', ''distance_walking_running_km''],
    df_unit = ''km'', df_compleCategory = ''C''\<rparr>),
  (''training_duration'', \<lparr>df_id = ''training_duration'', df_label = ''Training Duration'',
    df_columns = [''daily_duration_min'', ''workout_duration_min'', ''ah_workout_duration_min'', ''exercise_time_min''],
    df_unit = ''min'', df_compleCategory = ''C''\<rparr>),
  (''zone2_volume'', \<lparr>df_id = ''zone2_volume'', df_label = ''Zone 2 Volume'',
    df_columns = [''daily_zone2_min'', ''zone2_minutes''],
    df_unit = ''min'', df_compleCategory = ''C''\<rparr>),
  (''total_distance'', \<lparr>df_id = ''total_distance'', df_label = ''Total Distance'',
    df_columns = [''daily_distance_km'', ''distance_walking_running_km''],
    df_unit = ''km'', df_compleCategory = ''C''\<rparr>),
  (''active_energy'', \<lparr>df_id = ''active_energy'', df_label = ''Active Energy'',
    df_columns = [''active_energy_kcal'', ''ah_workout_energy_kcal''],
    df_unit = ''kcal'', df_compleCategory = ''C''\<rparr>),
  (''daily_steps'', \<lparr>df_id = ''daily_steps'', df_label = ''Daily Steps'',
    df_columns = [''steps''],
    df_unit = ''steps'', df_compleCategory = ''C''\<rparr>),
  (''training_load'', \<lparr>df_id = ''training_load'', df_label = ''Training Load (TRIMP)'',
    df_columns = [''daily_trimp''],
    df_unit = ''TRIMP'', df_compleCategory = ''C''\<rparr>),
  (''workout_end_time'', \<lparr>df_id = ''workout_end_time'', df_label = ''Workout End Time'',
    df_columns = [''last_workout_end_hour'', ''latest_workout_hour''],
    df_unit = ''hour'', df_compleCategory = ''C''\<rparr>),
  (''bedtime'', \<lparr>df_id = ''bedtime'', df_label = ''Bedtime'',
    df_columns = [''bedtime_hour''],
    df_unit = ''hour'', df_compleCategory = ''C''\<rparr>),
  (''acwr'', \<lparr>df_id = ''acwr'', df_label = ''ACWR'',
    df_columns = [''acwr''],
    df_unit = ''ratio'', df_compleCategory = ''L''\<rparr>),
  (''training_consistency'', \<lparr>df_id = ''training_consistency'', df_label = ''Training Consistency'',
    df_columns = [''training_consistency'', ''training_consistency_90d''],
    df_unit = ''fraction'', df_compleCategory = ''L''\<rparr>),
  (''sleep_debt'', \<lparr>df_id = ''sleep_debt'', df_label = ''Sleep Debt'',
    df_columns = [''sleep_debt_14d''],
    df_unit = ''hours deficit'', df_compleCategory = ''L''\<rparr>),
  (''sleep_duration'', \<lparr>df_id = ''sleep_duration'', df_label = ''Sleep Duration'',
    df_columns = [''sleep_duration_hrs''],
    df_unit = ''hours'', df_compleCategory = ''C''\<rparr>),
  (''travel_load'', \<lparr>df_id = ''travel_load'', df_label = ''Travel/Jet Lag Load'',
    df_columns = [''travel_load''],
    df_unit = ''jet lag score'', df_compleCategory = ''L''\<rparr>),
  (''dietary_protein'', \<lparr>df_id = ''dietary_protein'', df_label = ''Dietary Protein'',
    df_columns = [''dietary_protein_g''],
    df_unit = ''g'', df_compleCategory = ''C''\<rparr>),
  (''dietary_energy'', \<lparr>df_id = ''dietary_energy'', df_label = ''Dietary Energy'',
    df_columns = [''dietary_energy_kcal''],
    df_unit = ''kcal'', df_compleCategory = ''C''\<rparr>),
  (''iron_sat_level'', \<lparr>df_id = ''iron_sat_level'', df_label = ''Iron Saturation'',
    df_columns = [''iron_saturation_pct_smoothed'', ''iron_saturation_pct_computed_smoothed''],
    df_unit = ''%'', df_compleCategory = ''M''\<rparr>),
  (''vitamin_d_level'', \<lparr>df_id = ''vitamin_d_level'', df_label = ''Vitamin D Level'',
    df_columns = [''vitamin_d_smoothed'', ''vitamin_d_raw''],
    df_unit = ''ng/mL'', df_compleCategory = ''M''\<rparr>),
  (''omega3_level'', \<lparr>df_id = ''omega3_level'', df_label = ''Omega-3 Index'',
    df_columns = [''omega3_index_derived'', ''omega3_index_smoothed''],
    df_unit = ''%'', df_compleCategory = ''M''\<rparr>),
  (''b12_level'', \<lparr>df_id = ''b12_level'', df_label = ''B12 Level'',
    df_columns = [''b12_smoothed'', ''b12_raw''],
    df_unit = ''pg/mL'', df_compleCategory = ''M''\<rparr>),
  (''homocysteine_level'', \<lparr>df_id = ''homocysteine_level'', df_label = ''Homocysteine Level'',
    df_columns = [''homocysteine_smoothed'', ''homocysteine_raw''],
    df_unit = ''umol/L'', df_compleCategory = ''M''\<rparr>),
  (''ferritin_level'', \<lparr>df_id = ''ferritin_level'', df_label = ''Ferritin Level'',
    df_columns = [''ferritin_smoothed'', ''ferritin_raw''],
    df_unit = ''ng/mL'', df_compleCategory = ''M''\<rparr>)]"


definition RESPONSE_FAMILIES :: "(string \<times> ResponseFamilyDef) list" where
  "RESPONSE_FAMILIES = [
  (''iron_total'', \<lparr>rf_id = ''iron_total'', rf_label = ''Serum Iron'',
    rf_columns = [''iron_total_smoothed'', ''iron_total_raw''],
    rf_unit = ''mcg/dL'', rf_compleCategory = ''M'', rf_biologicalTimescale = Slow\<rparr>),
  (''ferritin'', \<lparr>rf_id = ''ferritin'', rf_label = ''Ferritin'',
    rf_columns = [''ferritin_smoothed'', ''ferritin_raw''],
    rf_unit = ''ng/mL'', rf_compleCategory = ''M'', rf_biologicalTimescale = Slow\<rparr>),
  (''hemoglobin'', \<lparr>rf_id = ''hemoglobin'', rf_label = ''Hemoglobin'',
    rf_columns = [''hemoglobin_smoothed'', ''hemoglobin_raw''],
    rf_unit = ''g/dL'', rf_compleCategory = ''M'', rf_biologicalTimescale = Slow\<rparr>),
  (''testosterone'', \<lparr>rf_id = ''testosterone'', rf_label = ''Testosterone'',
    rf_columns = [''testosterone_smoothed'', ''testosterone_raw''],
    rf_unit = ''ng/dL'', rf_compleCategory = ''M'', rf_biologicalTimescale = Slow\<rparr>),
  (''cortisol'', \<lparr>rf_id = ''cortisol'', rf_label = ''Cortisol'',
    rf_columns = [''cortisol_smoothed'', ''cortisol_raw''],
    rf_unit = ''mcg/dL'', rf_compleCategory = ''M'', rf_biologicalTimescale = Slow\<rparr>),
  (''triglycerides'', \<lparr>rf_id = ''triglycerides'', rf_label = ''Triglycerides'',
    rf_columns = [''triglycerides_smoothed'', ''triglycerides_raw''],
    rf_unit = ''mg/dL'', rf_compleCategory = ''M'', rf_biologicalTimescale = Slow\<rparr>),
  (''hdl'', \<lparr>rf_id = ''hdl'', rf_label = ''HDL Cholesterol'',
    rf_columns = [''hdl_smoothed'', ''hdl_raw''],
    rf_unit = ''mg/dL'', rf_compleCategory = ''M'', rf_biologicalTimescale = Slow\<rparr>),
  (''ldl'', \<lparr>rf_id = ''ldl'', rf_label = ''LDL Cholesterol'',
    rf_columns = [''ldl_smoothed'', ''ldl_raw''],
    rf_unit = ''mg/dL'', rf_compleCategory = ''M'', rf_biologicalTimescale = Slow\<rparr>),
  (''hscrp'', \<lparr>rf_id = ''hscrp'', rf_label = ''hs-CRP'',
    rf_columns = [''hscrp_smoothed'', ''hscrp_raw''],
    rf_unit = ''mg/L'', rf_compleCategory = ''M'', rf_biologicalTimescale = Medium\<rparr>),
  (''vo2peak'', \<lparr>rf_id = ''vo2peak'', rf_label = ''VO2peak'',
    rf_columns = [''vo2_peak_smoothed'', ''vo2max_apple''],
    rf_unit = ''ml/min/kg'', rf_compleCategory = ''M'', rf_biologicalTimescale = Slow\<rparr>),
  (''sleep_efficiency'', \<lparr>rf_id = ''sleep_efficiency'', rf_label = ''Sleep Efficiency'',
    rf_columns = [''sleep_efficiency_pct'', ''sleep_efficiency_7d''],
    rf_unit = ''%'', rf_compleCategory = ''O'', rf_biologicalTimescale = Fast\<rparr>),
  (''sleep_quality'', \<lparr>rf_id = ''sleep_quality'', rf_label = ''Sleep Quality'',
    rf_columns = [''sleep_quality_score''],
    rf_unit = ''min quality'', rf_compleCategory = ''O'', rf_biologicalTimescale = Fast\<rparr>),
  (''deep_sleep'', \<lparr>rf_id = ''deep_sleep'', rf_label = ''Deep Sleep'',
    rf_columns = [''deep_sleep_min'', ''ah_deep_sleep_min''],
    rf_unit = ''min'', rf_compleCategory = ''O'', rf_biologicalTimescale = Fast\<rparr>),
  (''sleep_duration_outcome'', \<lparr>rf_id = ''sleep_duration_outcome'', rf_label = ''Sleep Duration'',
    rf_columns = [''sleep_duration_hrs'', ''ah_sleep_total_min''],
    rf_unit = ''hrs'', rf_compleCategory = ''O'', rf_biologicalTimescale = Fast\<rparr>),
  (''hrv_daily'', \<lparr>rf_id = ''hrv_daily'', rf_label = ''Daily HRV'',
    rf_columns = [''hrv_daily_mean'', ''sleep_hrv_ms'', ''hrv_ms''],
    rf_unit = ''ms'', rf_compleCategory = ''O'', rf_biologicalTimescale = Fast\<rparr>),
  (''hrv_baseline'', \<lparr>rf_id = ''hrv_baseline'', rf_label = ''HRV 7-Day Baseline'',
    rf_columns = [''hrv_7d_mean'', ''sleep_hrv_7d''],
    rf_unit = ''ms'', rf_compleCategory = ''O'', rf_biologicalTimescale = Medium\<rparr>),
  (''resting_hr'', \<lparr>rf_id = ''resting_hr'', rf_label = ''Resting Heart Rate'',
    rf_columns = [''resting_hr'', ''sleep_hr_bpm''],
    rf_unit = ''bpm'', rf_compleCategory = ''O'', rf_biologicalTimescale = Fast\<rparr>),
  (''resting_hr_trend'', \<lparr>rf_id = ''resting_hr_trend'', rf_label = ''Resting HR 7-Day Avg'',
    rf_columns = [''resting_hr_7d_mean'', ''sleep_hr_7d''],
    rf_unit = ''bpm'', rf_compleCategory = ''O'', rf_biologicalTimescale = Medium\<rparr>),
  (''body_fat'', \<lparr>rf_id = ''body_fat'', rf_label = ''Body Fat %'',
    rf_columns = [''body_fat_pct''],
    rf_unit = ''%'', rf_compleCategory = ''M'', rf_biologicalTimescale = Slow\<rparr>),
  (''body_mass'', \<lparr>rf_id = ''body_mass'', rf_label = ''Body Mass'',
    rf_columns = [''body_mass_kg''],
    rf_unit = ''kg'', rf_compleCategory = ''M'', rf_biologicalTimescale = Slow\<rparr>),
  (''vitamin_d'', \<lparr>rf_id = ''vitamin_d'', rf_label = ''Vitamin D'',
    rf_columns = [''vitamin_d_smoothed'', ''vitamin_d_raw''],
    rf_unit = ''ng/mL'', rf_compleCategory = ''M'', rf_biologicalTimescale = Slow\<rparr>),
  (''wbc'', \<lparr>rf_id = ''wbc'', rf_label = ''White Blood Cells'',
    rf_columns = [''wbc_smoothed'', ''wbc_raw''],
    rf_unit = ''K/uL'', rf_compleCategory = ''M'', rf_biologicalTimescale = Slow\<rparr>),
  (''rbc'', \<lparr>rf_id = ''rbc'', rf_label = ''Red Blood Cells'',
    rf_columns = [''rbc_smoothed'', ''rbc_raw''],
    rf_unit = ''M/uL'', rf_compleCategory = ''M'', rf_biologicalTimescale = Slow\<rparr>),
  (''platelets'', \<lparr>rf_id = ''platelets'', rf_label = ''Platelet Count'',
    rf_columns = [''platelets_smoothed'', ''platelets_raw''],
    rf_unit = ''K/uL'', rf_compleCategory = ''M'', rf_biologicalTimescale = Slow\<rparr>),
  (''mcv'', \<lparr>rf_id = ''mcv'', rf_label = ''Mean Corpuscular Volume'',
    rf_columns = [''mcv_smoothed'', ''mcv_raw''],
    rf_unit = ''fL'', rf_compleCategory = ''M'', rf_biologicalTimescale = Slow\<rparr>),
  (''rdw'', \<lparr>rf_id = ''rdw'', rf_label = ''Red Cell Distribution Width'',
    rf_columns = [''rdw_smoothed'', ''rdw_raw''],
    rf_unit = ''%'', rf_compleCategory = ''M'', rf_biologicalTimescale = Slow\<rparr>),
  (''nlr'', \<lparr>rf_id = ''nlr'', rf_label = ''Neutrophil-to-Lymphocyte Ratio'',
    rf_columns = [''nlr''],
    rf_unit = ''ratio'', rf_compleCategory = ''M'', rf_biologicalTimescale = Slow\<rparr>),
  (''apob'', \<lparr>rf_id = ''apob'', rf_label = ''Apolipoprotein B'',
    rf_columns = [''apob_smoothed'', ''apob_raw''],
    rf_unit = ''mg/dL'', rf_compleCategory = ''M'', rf_biologicalTimescale = Slow\<rparr>),
  (''ldl_particle_number'', \<lparr>rf_id = ''ldl_particle_number'', rf_label = ''LDL Particle Number'',
    rf_columns = [''ldl_particle_number_smoothed'', ''ldl_particle_number_raw''],
    rf_unit = ''nmol/L'', rf_compleCategory = ''M'', rf_biologicalTimescale = Slow\<rparr>),
  (''non_hdl_cholesterol'', \<lparr>rf_id = ''non_hdl_cholesterol'', rf_label = ''Non-HDL Cholesterol'',
    rf_columns = [''non_hdl_cholesterol_smoothed'', ''non_hdl_cholesterol_raw''],
    rf_unit = ''mg/dL'', rf_compleCategory = ''M'', rf_biologicalTimescale = Slow\<rparr>),
  (''total_cholesterol'', \<lparr>rf_id = ''total_cholesterol'', rf_label = ''Total Cholesterol'',
    rf_columns = [''total_cholesterol_smoothed'', ''total_cholesterol_raw''],
    rf_unit = ''mg/dL'', rf_compleCategory = ''M'', rf_biologicalTimescale = Slow\<rparr>),
  (''glucose'', \<lparr>rf_id = ''glucose'', rf_label = ''Fasting Glucose'',
    rf_columns = [''glucose_smoothed'', ''glucose_raw''],
    rf_unit = ''mg/dL'', rf_compleCategory = ''M'', rf_biologicalTimescale = Slow\<rparr>),
  (''hba1c'', \<lparr>rf_id = ''hba1c'', rf_label = ''HbA1c'',
    rf_columns = [''hba1c_smoothed'', ''hba1c_raw''],
    rf_unit = ''%'', rf_compleCategory = ''M'', rf_biologicalTimescale = Slow\<rparr>),
  (''insulin'', \<lparr>rf_id = ''insulin'', rf_label = ''Insulin'',
    rf_columns = [''insulin_smoothed'', ''insulin_raw''],
    rf_unit = ''uIU/mL'', rf_compleCategory = ''M'', rf_biologicalTimescale = Slow\<rparr>),
  (''uric_acid'', \<lparr>rf_id = ''uric_acid'', rf_label = ''Uric Acid'',
    rf_columns = [''uric_acid_smoothed'', ''uric_acid_raw''],
    rf_unit = ''mg/dL'', rf_compleCategory = ''M'', rf_biologicalTimescale = Slow\<rparr>),
  (''homocysteine'', \<lparr>rf_id = ''homocysteine'', rf_label = ''Homocysteine'',
    rf_columns = [''homocysteine_smoothed'', ''homocysteine_raw''],
    rf_unit = ''umol/L'', rf_compleCategory = ''M'', rf_biologicalTimescale = Slow\<rparr>),
  (''b12'', \<lparr>rf_id = ''b12'', rf_label = ''Vitamin B12'',
    rf_columns = [''b12_smoothed'', ''b12_raw''],
    rf_unit = ''pg/mL'', rf_compleCategory = ''M'', rf_biologicalTimescale = Slow\<rparr>),
  (''folate'', \<lparr>rf_id = ''folate'', rf_label = ''Folate'',
    rf_columns = [''folate_smoothed'', ''folate_raw''],
    rf_unit = ''ng/mL'', rf_compleCategory = ''M'', rf_biologicalTimescale = Slow\<rparr>),
  (''zinc'', \<lparr>rf_id = ''zinc'', rf_label = ''Zinc'',
    rf_columns = [''zinc_smoothed'', ''zinc_raw''],
    rf_unit = ''mcg/dL'', rf_compleCategory = ''M'', rf_biologicalTimescale = Slow\<rparr>),
  (''magnesium'', \<lparr>rf_id = ''magnesium'', rf_label = ''Magnesium (RBC)'',
    rf_columns = [''magnesium_rbc_smoothed'', ''magnesium_rbc_raw''],
    rf_unit = ''mg/dL'', rf_compleCategory = ''M'', rf_biologicalTimescale = Slow\<rparr>),
  (''omega3_index'', \<lparr>rf_id = ''omega3_index'', rf_label = ''Omega-3 Index'',
    rf_columns = [''omega3_index_derived'', ''omega3_index_smoothed''],
    rf_unit = ''%'', rf_compleCategory = ''M'', rf_biologicalTimescale = Slow\<rparr>),
  (''creatinine'', \<lparr>rf_id = ''creatinine'', rf_label = ''Creatinine'',
    rf_columns = [''creatinine_smoothed'', ''creatinine_raw''],
    rf_unit = ''mg/dL'', rf_compleCategory = ''M'', rf_biologicalTimescale = Slow\<rparr>),
  (''ast'', \<lparr>rf_id = ''ast'', rf_label = ''AST'',
    rf_columns = [''ast_smoothed'', ''ast_raw''],
    rf_unit = ''U/L'', rf_compleCategory = ''M'', rf_biologicalTimescale = Slow\<rparr>),
  (''alt'', \<lparr>rf_id = ''alt'', rf_label = ''ALT'',
    rf_columns = [''alt_smoothed'', ''alt_raw''],
    rf_unit = ''U/L'', rf_compleCategory = ''M'', rf_biologicalTimescale = Slow\<rparr>),
  (''albumin'', \<lparr>rf_id = ''albumin'', rf_label = ''Albumin'',
    rf_columns = [''albumin_smoothed'', ''albumin_raw''],
    rf_unit = ''g/dL'', rf_compleCategory = ''M'', rf_biologicalTimescale = Slow\<rparr>),
  (''dhea_s'', \<lparr>rf_id = ''dhea_s'', rf_label = ''DHEA-S'',
    rf_columns = [''dhea_s_smoothed'', ''dhea_s_raw''],
    rf_unit = ''mcg/dL'', rf_compleCategory = ''M'', rf_biologicalTimescale = Slow\<rparr>),
  (''shbg'', \<lparr>rf_id = ''shbg'', rf_label = ''Sex Hormone Binding Globulin'',
    rf_columns = [''shbg_smoothed'', ''shbg_raw''],
    rf_unit = ''nmol/L'', rf_compleCategory = ''M'', rf_biologicalTimescale = Slow\<rparr>),
  (''estradiol'', \<lparr>rf_id = ''estradiol'', rf_label = ''Estradiol'',
    rf_columns = [''estradiol_smoothed'', ''estradiol_raw''],
    rf_unit = ''pg/mL'', rf_compleCategory = ''M'', rf_biologicalTimescale = Slow\<rparr>),
  (''free_t_ratio'', \<lparr>rf_id = ''free_t_ratio'', rf_label = ''Free T / Total T Ratio'',
    rf_columns = [''free_t_ratio''],
    rf_unit = ''ratio'', rf_compleCategory = ''M'', rf_biologicalTimescale = Slow\<rparr>)]"


definition MECHANISM_CATALOG :: "MechanismDef list" where
  "MECHANISM_CATALOG = [
  \<lparr>m_id = ''run_vol_iron'', m_name = ''Running Volume -> Iron'',
    doseFamily = ''running_volume'', responseFamily = ''iron_total'', m_category = Metabolic,
    m_mechanism = ''Foot-strike hemolysis destroys red blood cells; iron lost via hemolysis, sweat, and GI ischemia''\<rparr>,
  \<lparr>m_id = ''run_vol_ferritin'', m_name = ''Running Volume -> Ferritin'',
    doseFamily = ''running_volume'', responseFamily = ''ferritin'', m_category = Metabolic,
    m_mechanism = ''Chronic endurance running depletes iron stores through multiple loss pathways''\<rparr>,
  \<lparr>m_id = ''run_vol_hemoglobin'', m_name = ''Running Volume -> Hemoglobin'',
    doseFamily = ''running_volume'', responseFamily = ''hemoglobin'', m_category = Metabolic,
    m_mechanism = ''Iron depletion impairs hemoglobin synthesis; chronic running can cause sports anemia''\<rparr>,
  \<lparr>m_id = ''training_hrs_testosterone'', m_name = ''Training Hours -> Testosterone'',
    doseFamily = ''training_duration'', responseFamily = ''testosterone'', m_category = Metabolic,
    m_mechanism = ''Overtraining suppresses the hypothalamic-pituitary-gonadal axis''\<rparr>,
  \<lparr>m_id = ''training_hrs_cortisol'', m_name = ''Training Hours -> Cortisol'',
    doseFamily = ''training_duration'', responseFamily = ''cortisol'', m_category = Metabolic,
    m_mechanism = ''Chronic training stress elevates baseline cortisol via HPA axis activation''\<rparr>,
  \<lparr>m_id = ''zone2_triglycerides'', m_name = ''Zone 2 Volume -> Triglycerides'',
    doseFamily = ''zone2_volume'', responseFamily = ''triglycerides'', m_category = Cardio,
    m_mechanism = ''Aerobic exercise increases lipoprotein lipase activity, clearing triglycerides''\<rparr>,
  \<lparr>m_id = ''zone2_hdl'', m_name = ''Zone 2 Volume -> HDL'',
    doseFamily = ''zone2_volume'', responseFamily = ''hdl'', m_category = Cardio,
    m_mechanism = ''Regular aerobic exercise upregulates HDL production and reverse cholesterol transport''\<rparr>,
  \<lparr>m_id = ''zone2_ldl'', m_name = ''Zone 2 Volume -> LDL'',
    doseFamily = ''zone2_volume'', responseFamily = ''ldl'', m_category = Cardio,
    m_mechanism = ''Aerobic exercise can modestly reduce LDL and shift particle size''\<rparr>,
  \<lparr>m_id = ''acwr_hscrp'', m_name = ''ACWR -> Inflammation'',
    doseFamily = ''acwr'', responseFamily = ''hscrp'', m_category = Recovery,
    m_mechanism = ''Acute overreaching triggers systemic inflammation via muscle damage and oxidative stress''\<rparr>,
  \<lparr>m_id = ''acwr_resting_hr'', m_name = ''ACWR -> Resting HR Trend'',
    doseFamily = ''acwr'', responseFamily = ''resting_hr_trend'', m_category = Recovery,
    m_mechanism = ''Chronic overreaching elevates baseline sympathetic tone and resting heart rate''\<rparr>,
  \<lparr>m_id = ''consistency_vo2'', m_name = ''Training Consistency -> VO2peak'',
    doseFamily = ''training_consistency'', responseFamily = ''vo2peak'', m_category = Cardio,
    m_mechanism = ''Consistent aerobic training drives mitochondrial biogenesis and cardiac remodeling''\<rparr>,
  \<lparr>m_id = ''ferritin_vo2'', m_name = ''Ferritin -> VO2peak'',
    doseFamily = ''ferritin_level'', responseFamily = ''vo2peak'', m_category = Metabolic,
    m_mechanism = ''Iron stores limit oxygen transport capacity via hemoglobin synthesis''\<rparr>,
  \<lparr>m_id = ''workout_time_sleep_eff'', m_name = ''Workout Time -> Sleep Efficiency'',
    doseFamily = ''workout_end_time'', responseFamily = ''sleep_efficiency'', m_category = Sleep,
    m_mechanism = ''Late workouts elevate core temperature and sympathetic tone, delaying sleep onset''\<rparr>,
  \<lparr>m_id = ''bedtime_sleep_quality'', m_name = ''Bedtime -> Sleep Quality'',
    doseFamily = ''bedtime'', responseFamily = ''sleep_quality'', m_category = Sleep,
    m_mechanism = ''Later bedtimes misalign with circadian melatonin onset, reducing sleep architecture quality''\<rparr>,
  \<lparr>m_id = ''bedtime_deep_sleep'', m_name = ''Bedtime -> Deep Sleep'',
    doseFamily = ''bedtime'', responseFamily = ''deep_sleep'', m_category = Sleep,
    m_mechanism = ''Earlier bedtime captures more slow-wave sleep in the first half of the night''\<rparr>,
  \<lparr>m_id = ''sleep_dur_hrv'', m_name = ''Sleep Duration -> Next-Day HRV'',
    doseFamily = ''sleep_duration'', responseFamily = ''hrv_daily'', m_category = Recovery,
    m_mechanism = ''Adequate sleep restores parasympathetic tone; insufficient sleep elevates sympathetic activity''\<rparr>,
  \<lparr>m_id = ''sleep_debt_resting_hr'', m_name = ''Sleep Debt -> Resting HR'',
    doseFamily = ''sleep_debt'', responseFamily = ''resting_hr'', m_category = Recovery,
    m_mechanism = ''Accumulated sleep deficit elevates sympathetic tone and baseline heart rate''\<rparr>,
  \<lparr>m_id = ''trimp_hrv'', m_name = ''Daily Training Load -> Next-Day HRV'',
    doseFamily = ''training_load'', responseFamily = ''hrv_daily'', m_category = Recovery,
    m_mechanism = ''Acute training load drives autonomic nervous system fatigue measured via HRV depression''\<rparr>,
  \<lparr>m_id = ''trimp_resting_hr'', m_name = ''Daily Training Load -> Next-Day Resting HR'',
    doseFamily = ''training_load'', responseFamily = ''resting_hr'', m_category = Recovery,
    m_mechanism = ''Acute training elevates next-day resting HR via sympathetic activation and cardiac fatigue''\<rparr>,
  \<lparr>m_id = ''steps_sleep_eff'', m_name = ''Daily Steps -> Sleep Efficiency'',
    doseFamily = ''daily_steps'', responseFamily = ''sleep_efficiency'', m_category = Sleep,
    m_mechanism = ''Moderate daily activity promotes sleep; excessive activity may impair it via overarousal''\<rparr>,
  \<lparr>m_id = ''energy_deep_sleep'', m_name = ''Active Energy -> Deep Sleep'',
    doseFamily = ''active_energy'', responseFamily = ''deep_sleep'', m_category = Sleep,
    m_mechanism = ''Physical activity increases slow-wave sleep need via adenosine accumulation and thermoregulation''\<rparr>,
  \<lparr>m_id = ''weekly_km_hrv'', m_name = ''Weekly Volume -> HRV Baseline'',
    doseFamily = ''running_volume'', responseFamily = ''hrv_baseline'', m_category = Recovery,
    m_mechanism = ''Moderate volume improves vagal tone; excessive volume suppresses it via overtraining''\<rparr>,
  \<lparr>m_id = ''travel_sleep_eff'', m_name = ''Travel Load -> Sleep Efficiency'',
    doseFamily = ''travel_load'', responseFamily = ''sleep_efficiency'', m_category = Sleep,
    m_mechanism = ''Jet lag disrupts circadian rhythm, delaying melatonin onset and reducing sleep efficiency''\<rparr>,
  \<lparr>m_id = ''travel_hrv'', m_name = ''Travel Load -> Daily HRV'',
    doseFamily = ''travel_load'', responseFamily = ''hrv_daily'', m_category = Recovery,
    m_mechanism = ''Travel stress and circadian misalignment suppress parasympathetic tone measured via HRV''\<rparr>,
  \<lparr>m_id = ''travel_rhr'', m_name = ''Travel Load -> Resting HR'',
    doseFamily = ''travel_load'', responseFamily = ''resting_hr'', m_category = Recovery,
    m_mechanism = ''Circadian disruption and travel fatigue elevate sympathetic tone and resting heart rate''\<rparr>,
  \<lparr>m_id = ''training_vol_body_fat'', m_name = ''Training Volume -> Body Fat'',
    doseFamily = ''training_duration'', responseFamily = ''body_fat'', m_category = Metabolic,
    m_mechanism = ''Higher training volume increases energy expenditure and fat oxidation''\<rparr>,
  \<lparr>m_id = ''steps_body_mass'', m_name = ''Daily Activity -> Body Mass'',
    doseFamily = ''daily_steps'', responseFamily = ''body_mass'', m_category = Metabolic,
    m_mechanism = ''Higher daily activity creates energy deficit supporting weight management''\<rparr>,
  \<lparr>m_id = ''run_vol_rbc'', m_name = ''Running Volume -> RBC'',
    doseFamily = ''running_volume'', responseFamily = ''rbc'', m_category = Metabolic,
    m_mechanism = ''Endurance running causes plasma volume expansion, diluting red cell concentration''\<rparr>,
  \<lparr>m_id = ''run_vol_mcv'', m_name = ''Running Volume -> MCV'',
    doseFamily = ''running_volume'', responseFamily = ''mcv'', m_category = Metabolic,
    m_mechanism = ''Iron depletion from chronic running leads to microcytic red cells (low MCV)''\<rparr>,
  \<lparr>m_id = ''run_vol_rdw'', m_name = ''Running Volume -> RDW'',
    doseFamily = ''running_volume'', responseFamily = ''rdw'', m_category = Metabolic,
    m_mechanism = ''Mixed cell populations from iron depletion increase red cell size variation''\<rparr>,
  \<lparr>m_id = ''training_hrs_ast'', m_name = ''Training Hours -> AST'',
    doseFamily = ''training_duration'', responseFamily = ''ast'', m_category = Metabolic,
    m_mechanism = ''Skeletal muscle damage during exercise releases AST into bloodstream''\<rparr>,
  \<lparr>m_id = ''training_hrs_alt'', m_name = ''Training Hours -> ALT'',
    doseFamily = ''training_duration'', responseFamily = ''alt'', m_category = Metabolic,
    m_mechanism = ''Exercise-induced hepatic stress and muscle damage elevate ALT''\<rparr>,
  \<lparr>m_id = ''zone2_apob'', m_name = ''Zone 2 Volume -> ApoB'',
    doseFamily = ''zone2_volume'', responseFamily = ''apob'', m_category = Cardio,
    m_mechanism = ''Aerobic exercise reduces atherogenic particle count via increased LDL receptor activity''\<rparr>,
  \<lparr>m_id = ''zone2_non_hdl'', m_name = ''Zone 2 Volume -> Non-HDL Cholesterol'',
    doseFamily = ''zone2_volume'', responseFamily = ''non_hdl_cholesterol'', m_category = Cardio,
    m_mechanism = ''Aerobic exercise reduces atherogenic lipoproteins (LDL + VLDL + IDL)''\<rparr>,
  \<lparr>m_id = ''zone2_total_chol'', m_name = ''Zone 2 Volume -> Total Cholesterol'',
    doseFamily = ''zone2_volume'', responseFamily = ''total_cholesterol'', m_category = Cardio,
    m_mechanism = ''Aerobic exercise net effect on total cholesterol (HDL up, LDL down)''\<rparr>,
  \<lparr>m_id = ''training_hrs_glucose'', m_name = ''Training Hours -> Glucose'',
    doseFamily = ''training_duration'', responseFamily = ''glucose'', m_category = Metabolic,
    m_mechanism = ''Exercise upregulates GLUT4 transporters, improving glucose disposal''\<rparr>,
  \<lparr>m_id = ''training_hrs_hba1c'', m_name = ''Training Hours -> HbA1c'',
    doseFamily = ''training_duration'', responseFamily = ''hba1c'', m_category = Metabolic,
    m_mechanism = ''Chronic exercise improves long-term glycemic control through insulin sensitization''\<rparr>,
  \<lparr>m_id = ''training_hrs_insulin'', m_name = ''Training Hours -> Insulin'',
    doseFamily = ''training_duration'', responseFamily = ''insulin'', m_category = Metabolic,
    m_mechanism = ''Regular exercise improves insulin sensitivity, lowering fasting insulin levels''\<rparr>,
  \<lparr>m_id = ''training_hrs_uric_acid'', m_name = ''Training Hours -> Uric Acid'',
    doseFamily = ''training_duration'', responseFamily = ''uric_acid'', m_category = Metabolic,
    m_mechanism = ''Exercise modulates purine metabolism; moderate exercise may lower uric acid''\<rparr>,
  \<lparr>m_id = ''acwr_wbc'', m_name = ''ACWR -> White Blood Cells'',
    doseFamily = ''acwr'', responseFamily = ''wbc'', m_category = Recovery,
    m_mechanism = ''Acute overreaching triggers open-window immunosuppression with transient leukopenia''\<rparr>,
  \<lparr>m_id = ''acwr_nlr'', m_name = ''ACWR -> Neutrophil-Lymphocyte Ratio'',
    doseFamily = ''acwr'', responseFamily = ''nlr'', m_category = Recovery,
    m_mechanism = ''Training stress shifts immune balance: neutrophilia + lymphopenia = elevated NLR''\<rparr>,
  \<lparr>m_id = ''run_vol_zinc'', m_name = ''Running Volume -> Zinc'',
    doseFamily = ''running_volume'', responseFamily = ''zinc'', m_category = Metabolic,
    m_mechanism = ''Zinc lost through sweat during endurance exercise; heavy training depletes stores''\<rparr>,
  \<lparr>m_id = ''run_vol_magnesium'', m_name = ''Running Volume -> Magnesium'',
    doseFamily = ''running_volume'', responseFamily = ''magnesium'', m_category = Metabolic,
    m_mechanism = ''Magnesium lost through sweat and increased renal excretion during exercise''\<rparr>,
  \<lparr>m_id = ''training_hrs_dhea'', m_name = ''Training Hours -> DHEA-S'',
    doseFamily = ''training_duration'', responseFamily = ''dhea_s'', m_category = Metabolic,
    m_mechanism = ''Moderate exercise stimulates adrenal DHEA production; overtraining may deplete it''\<rparr>,
  \<lparr>m_id = ''training_hrs_shbg'', m_name = ''Training Hours -> SHBG'',
    doseFamily = ''training_duration'', responseFamily = ''shbg'', m_category = Metabolic,
    m_mechanism = ''Exercise increases SHBG production, affecting free testosterone availability''\<rparr>,
  \<lparr>m_id = ''training_hrs_homocysteine'', m_name = ''Training Hours -> Homocysteine'',
    doseFamily = ''training_duration'', responseFamily = ''homocysteine'', m_category = Metabolic,
    m_mechanism = ''Exercise increases B6/B12/folate demand for methylation; may lower homocysteine''\<rparr>,
  \<lparr>m_id = ''training_hrs_creatinine'', m_name = ''Training Hours -> Creatinine'',
    doseFamily = ''training_duration'', responseFamily = ''creatinine'', m_category = Metabolic,
    m_mechanism = ''Higher muscle mass and exercise increase creatine turnover and serum creatinine''\<rparr>,
  \<lparr>m_id = ''training_hrs_estradiol'', m_name = ''Training Hours -> Estradiol'',
    doseFamily = ''training_duration'', responseFamily = ''estradiol'', m_category = Metabolic,
    m_mechanism = ''Exercise affects aromatase activity and adipose tissue estrogen production''\<rparr>,
  \<lparr>m_id = ''training_hrs_platelets'', m_name = ''Training Hours -> Platelet Count'',
    doseFamily = ''training_duration'', responseFamily = ''platelets'', m_category = Metabolic,
    m_mechanism = ''Acute exercise induces thrombocytosis; chronic training may modulate baseline count''\<rparr>,
  \<lparr>m_id = ''training_hrs_albumin'', m_name = ''Training Hours -> Albumin'',
    doseFamily = ''training_duration'', responseFamily = ''albumin'', m_category = Metabolic,
    m_mechanism = ''Exercise-induced plasma volume expansion can dilute serum albumin''\<rparr>,
  \<lparr>m_id = ''sleep_dur_cortisol'', m_name = ''Sleep Duration -> Cortisol'',
    doseFamily = ''sleep_duration'', responseFamily = ''cortisol'', m_category = Recovery,
    m_mechanism = ''Sleep restriction elevates next-morning cortisol via HPA axis dysregulation''\<rparr>,
  \<lparr>m_id = ''sleep_dur_testosterone'', m_name = ''Sleep Duration -> Testosterone'',
    doseFamily = ''sleep_duration'', responseFamily = ''testosterone'', m_category = Recovery,
    m_mechanism = ''Testosterone is primarily produced during sleep; restriction suppresses production''\<rparr>,
  \<lparr>m_id = ''sleep_dur_glucose'', m_name = ''Sleep Duration -> Glucose'',
    doseFamily = ''sleep_duration'', responseFamily = ''glucose'', m_category = Recovery,
    m_mechanism = ''Chronic sleep restriction impairs insulin sensitivity and glucose tolerance''\<rparr>,
  \<lparr>m_id = ''sleep_dur_wbc'', m_name = ''Sleep Duration -> WBC'',
    doseFamily = ''sleep_duration'', responseFamily = ''wbc'', m_category = Recovery,
    m_mechanism = ''Adequate sleep supports immune cell production and healthy WBC counts''\<rparr>,
  \<lparr>m_id = ''iron_sat_hemoglobin'', m_name = ''Iron Saturation -> Hemoglobin'',
    doseFamily = ''iron_sat_level'', responseFamily = ''hemoglobin'', m_category = Metabolic,
    m_mechanism = ''Iron saturation determines iron availability for hemoglobin synthesis''\<rparr>,
  \<lparr>m_id = ''vitamin_d_testosterone'', m_name = ''Vitamin D -> Testosterone'',
    doseFamily = ''vitamin_d_level'', responseFamily = ''testosterone'', m_category = Metabolic,
    m_mechanism = ''Vitamin D receptors in Leydig cells; deficiency is associated with lower testosterone''\<rparr>,
  \<lparr>m_id = ''omega3_hscrp'', m_name = ''Omega-3 Index -> hsCRP'',
    doseFamily = ''omega3_level'', responseFamily = ''hscrp'', m_category = Metabolic,
    m_mechanism = ''EPA/DHA compete with arachidonic acid, reducing pro-inflammatory eicosanoid production''\<rparr>,
  \<lparr>m_id = ''ferritin_rbc'', m_name = ''Ferritin -> RBC'',
    doseFamily = ''ferritin_level'', responseFamily = ''rbc'', m_category = Metabolic,
    m_mechanism = ''Iron stores support erythropoiesis; depletion impairs red blood cell production''\<rparr>,
  \<lparr>m_id = ''ferritin_hemoglobin'', m_name = ''Ferritin -> Hemoglobin'',
    doseFamily = ''ferritin_level'', responseFamily = ''hemoglobin'', m_category = Metabolic,
    m_mechanism = ''Low ferritin limits iron availability for hemoglobin synthesis''\<rparr>,
  \<lparr>m_id = ''b12_homocysteine'', m_name = ''B12 -> Homocysteine'',
    doseFamily = ''b12_level'', responseFamily = ''homocysteine'', m_category = Metabolic,
    m_mechanism = ''B12 is a cofactor for methionine synthase which clears homocysteine''\<rparr>,
  \<lparr>m_id = ''homocysteine_hscrp'', m_name = ''Homocysteine -> hsCRP'',
    doseFamily = ''homocysteine_level'', responseFamily = ''hscrp'', m_category = Metabolic,
    m_mechanism = ''Elevated homocysteine promotes endothelial dysfunction and vascular inflammation''\<rparr>,
  \<lparr>m_id = ''protein_body_fat'', m_name = ''Dietary Protein -> Body Fat'',
    doseFamily = ''dietary_protein'', responseFamily = ''body_fat'', m_category = Metabolic,
    m_mechanism = ''Higher protein intake increases thermic effect and satiety, supporting fat loss''\<rparr>,
  \<lparr>m_id = ''energy_body_mass'', m_name = ''Dietary Energy -> Body Mass'',
    doseFamily = ''dietary_energy'', responseFamily = ''body_mass'', m_category = Metabolic,
    m_mechanism = ''Chronic energy surplus/deficit drives body mass changes via energy balance''\<rparr>,
  \<lparr>m_id = ''travel_nlr'', m_name = ''Travel Load -> NLR'',
    doseFamily = ''travel_load'', responseFamily = ''nlr'', m_category = Recovery,
    m_mechanism = ''Travel stress and circadian disruption shift immune balance toward neutrophilia''\<rparr>,
  \<lparr>m_id = ''travel_deep_sleep'', m_name = ''Travel Load -> Deep Sleep'',
    doseFamily = ''travel_load'', responseFamily = ''deep_sleep'', m_category = Sleep,
    m_mechanism = ''Jet lag disrupts slow-wave sleep architecture via circadian misalignment''\<rparr>]"


definition LATENT_NODES :: "string list" where
  "LATENT_NODES = [
   ''sweat_iron_loss'',
   ''gi_iron_loss'',
   ''lipoprotein_lipase'',
   ''reverse_cholesterol_transport'',
   ''core_temperature'',
   ''energy_expenditure'',
   ''leptin'',
   ''insulin_sensitivity'']"

section \<open>Property lookup and exceptions\<close>

datatype error = TypeError

text \<open>
  \<^verbatim>\<open>obj[key]\<close> on an object literal first looks among the literal's own properties
  and then along the prototype chain, which for a literal is \<^verbatim>\<open>Object.prototype\<close>.
  The names below are the properties of \<^verbatim>\<open>Object.prototype\<close>; each of them reads
  as a function or an object, hence as a truthy value that has no \<^verbatim>\<open>columns\<close>
  property. Any other missing key reads as \<^verbatim>\<open>undefined\<close>.
\<close>

definition Object_prototype_keys :: "string list" where
  "Object_prototype_keys =
    [''constructor'', ''__defineGetter__'', ''__defineSetter__'', ''hasOwnProperty'',
     ''__lookupGetter__'', ''__lookupSetter__'', ''isPrototypeOf'',
     ''propertyIsEnumerable'', ''toString'', ''valueOf'', ''__proto__'',
     ''toLocaleString'']"

datatype 'a property = Own 'a | Inherited | Undefined

definition get_property :: "(string \<times> 'a) list \<Rightarrow> string \<Rightarrow> 'a property" where
  "get_property obj key =
     (case map_of obj key of
        Some v \<Rightarrow> Own v
      | None \<Rightarrow> if key \<in> set Object_prototype_keys then Inherited else Undefined)"

text \<open>Sequencing of computations that may throw: the first exception ends the call.\<close>

definition bind_r :: "error + 'a \<Rightarrow> ('a \<Rightarrow> error + 'b) \<Rightarrow> error + 'b" where
  "bind_r m f = (case m of Inl e \<Rightarrow> Inl e | Inr x \<Rightarrow> f x)"

section \<open>Testability\<close>

text \<open>
  \<^verbatim>\<open>hasDoseData\<close>: an undefined family gives \<^verbatim>\<open>false\<close>; an own family is tested with
  \<^verbatim>\<open>columns.some\<close>; an inherited property passes the \<^verbatim>\<open>!fam\<close> guard, its
  \<^verbatim>\<open>columns\<close> is \<^verbatim>\<open>undefined\<close>, and calling \<^verbatim>\<open>.some\<close> on it throws a TypeError.
\<close>

definition hasDoseData :: "string \<Rightarrow> string set \<Rightarrow> error + bool" where
  "hasDoseData doseFamilyId availableColumns =
     (case get_property DOSE_FAMILIES doseFamilyId of
        Undefined \<Rightarrow> Inr False
      | Inherited \<Rightarrow> Inl TypeError
      | Own fam \<Rightarrow> Inr (list_ex (\<lambda>c. c \<in> availableColumns) (df_columns fam)))"

definition hasResponseData :: "string \<Rightarrow> string set \<Rightarrow> error + bool" where
  "hasResponseData responseFamilyId availableColumns =
     (case get_property RESPONSE_FAMILIES responseFamilyId of
        Undefined \<Rightarrow> Inr False
      | Inherited \<Rightarrow> Inl TypeError
      | Own fam \<Rightarrow> Inr (list_ex (\<lambda>c. c \<in> availableColumns) (rf_columns fam)))"

text \<open>
  The loop of \<^verbatim>\<open>getCurrentlyTestableEdges\<close>, with the two result arrays as
  accumulators; \<^verbatim>\<open>push\<close> appends at the end. Both lookups run for every mechanism.
\<close>

definition testability_entry :: "MechanismDef \<Rightarrow> bool \<Rightarrow> bool \<Rightarrow> MechanismTestability" where
  "testability_entry mech doseOk responseOk =
     \<lparr>mechanism = mech,
      testable = (doseOk \<and> responseOk),
      mt_hasDoseData = doseOk,
      mt_hasResponseData = responseOk,
      missingDoseFamilies = (if doseOk then [] else [doseFamily mech]),
      missingResponseFamilies = (if responseOk then [] else [responseFamily mech])\<rparr>"

fun classify_loop :: "MechanismDef list \<Rightarrow> string set \<Rightarrow>
    MechanismTestability list \<Rightarrow> MechanismTestability list \<Rightarrow>
    error + (MechanismTestability list \<times> MechanismTestability list)" where
  "classify_loop [] availableColumns testable_acc untestable_acc =
     Inr (testable_acc, untestable_acc)"
| "classify_loop (mech # rest) availableColumns testable_acc untestable_acc =
     bind_r (hasDoseData (doseFamily mech) availableColumns) (\<lambda>doseOk.
     bind_r (hasResponseData (responseFamily mech) availableColumns) (\<lambda>responseOk.
       let entry = testability_entry mech doseOk responseOk in
       if testable entry
       then classify_loop rest availableColumns (testable_acc @ [entry]) untestable_acc
       else classify_loop rest availableColumns testable_acc (untestable_acc @ [entry])))"

definition getCurrentlyTestableEdges :: "string set \<Rightarrow>
    error + (MechanismTestability list \<times> MechanismTestability list)" where
  "getCurrentlyTestableEdges availableColumns =
     classify_loop MECHANISM_CATALOG availableColumns [] []"

section \<open>String helpers\<close>

text \<open>
  Column names, latent node names and edge fields are ASCII identifiers.
  \<^verbatim>\<open>toLowerCase\<close> maps the letters A to Z to a to z and keeps every other
  character; \<^verbatim>\<open>replace(/_/g, '')\<close> deletes the underscores; \<^verbatim>\<open>s.includes(t)\<close>
  tests whether \<open>t\<close> occurs in \<open>s\<close> as a contiguous substring.
\<close>

definition toLowerCase_char :: "char \<Rightarrow> char" where
  "toLowerCase_char c =
     (case map_of (zip ''ABCDEFGHIJKLMNOPQRSTUVWXYZ'' ''abcdefghijklmnopqrstuvwxyz'') c of
        Some l \<Rightarrow> l
      | None \<Rightarrow> c)"

definition toLowerCase :: "string \<Rightarrow> string" where
  "toLowerCase s = map toLowerCase_char s"

definition remove_underscores :: "string \<Rightarrow> string" where
  "remove_underscores s = filter (\<lambda>c. c \<noteq> CHR ''_'') s"

fun str_includes :: "string \<Rightarrow> string \<Rightarrow> bool" where
  "str_includes [] t = (t = [])"
| "str_includes (c # s) t = (prefix t (c # s) \<or> str_includes s t)"

section \<open>Marginal value scoring\<close>

text \<open>
  Lines 91 to 103 of the engine: the augmented column set starts as a copy of the
  available columns, receives the candidate's new columns and then the columns of
  every listed family. A listed id that reads as \<^verbatim>\<open>undefined\<close> is skipped; one that
  reads as an inherited property passes the \<^verbatim>\<open>if (fam)\<close> guard and
  \<^verbatim>\<open>fam.columns.forEach\<close> throws.
\<close>

fun add_dose_families :: "string list \<Rightarrow> string set \<Rightarrow> error + string set" where
  "add_dose_families [] augmentedColumns = Inr augmentedColumns"
| "add_dose_families (dfId # rest) augmentedColumns =
     (case get_property DOSE_FAMILIES dfId of
        Undefined \<Rightarrow> add_dose_families rest augmentedColumns
      | Inherited \<Rightarrow> Inl TypeError
      | Own fam \<Rightarrow> add_dose_families rest (augmentedColumns \<union> set (df_columns fam)))"

fun add_response_families :: "string list \<Rightarrow> string set \<Rightarrow> error + string set" where
  "add_response_families [] augmentedColumns = Inr augmentedColumns"
| "add_response_families (rfId # rest) augmentedColumns =
     (case get_property RESPONSE_FAMILIES rfId of
        Undefined \<Rightarrow> add_response_families rest augmentedColumns
      | Inherited \<Rightarrow> Inl TypeError
      | Own fam \<Rightarrow> add_response_families rest (augmentedColumns \<union> set (rf_columns fam)))"

definition augmentColumns :: "CandidateDataSource \<Rightarrow> string set \<Rightarrow> error + string set" where
  "augmentColumns cand availableColumns =
     bind_r (add_dose_families (newDoseFamilies cand)
               (availableColumns \<union> set (newColumns cand)))
            (add_response_families (newResponseFamilies cand))"

text \<open>
  The filter predicate of lines 108 and 112: \<^verbatim>\<open>&&\<close> evaluates
  \<^verbatim>\<open>hasResponseData\<close> only when \<^verbatim>\<open>hasDoseData\<close> returned \<^verbatim>\<open>true\<close>.
\<close>

definition isTestable :: "MechanismDef \<Rightarrow> string set \<Rightarrow> error + bool" where
  "isTestable m cols =
     bind_r (hasDoseData (doseFamily m) cols) (\<lambda>doseOk.
       if doseOk then hasResponseData (responseFamily m) cols else Inr False)"

fun filter_r :: "('a \<Rightarrow> error + bool) \<Rightarrow> 'a list \<Rightarrow> error + 'a list" where
  "filter_r p [] = Inr []"
| "filter_r p (x # xs) =
     bind_r (p x) (\<lambda>keep.
     bind_r (filter_r p xs) (\<lambda>ys. Inr (if keep then x # ys else ys)))"

definition testableMechanisms :: "string set \<Rightarrow> error + MechanismDef list" where
  "testableMechanisms cols = filter_r (\<lambda>m. isTestable m cols) MECHANISM_CATALOG"

text \<open>Lines 118 to 153: the substring heuristic and the per-candidate special cases.\<close>

definition matches_latent :: "string \<Rightarrow> string \<Rightarrow> bool" where
  "matches_latent latent col =
     (let colLower = toLowerCase col;
          latentLower = remove_underscores (toLowerCase latent)
      in str_includes colLower latentLower \<or>
         str_includes latentLower (remove_underscores colLower))"

definition resolves :: "CandidateDataSource \<Rightarrow> string \<Rightarrow> bool" where
  "resolves cand latent = list_ex (matches_latent latent) (newColumns cand)"

definition push_unless_included :: "string \<Rightarrow> string list \<Rightarrow> string list" where
  "push_unless_included x xs = (if x \<in> set xs then xs else xs @ [x])"

definition resolveLatentNodes :: "CandidateDataSource \<Rightarrow> string list" where
  "resolveLatentNodes cand =
     (let r0 = filter (resolves cand) LATENT_NODES;
          r1 = (if cand_id cand = ''body_temperature''
                then push_unless_included ''core_temperature'' r0 else r0);
          r2 = (if cand_id cand = ''mood_stress''
                then push_unless_included ''energy_expenditure'' r1 else r1);
          r3 = (if cand_id cand = ''genetic_data''
                then push_unless_included ''lipoprotein_lipase''
                       (push_unless_included ''insulin_sensitivity'' r2)
                else r2)
      in r3)"

text \<open>
  Lines 158 to 231: eight independent \<^verbatim>\<open>if\<close> statements, each of which appends the
  titles of the edges it selects, in the order of \<^verbatim>\<open>edgeResults\<close>. The conditions of
  the eight loops come first, one per candidate id.
\<close>

definition boosts_monthly_labs :: "EdgeResult \<Rightarrow> bool" where
  "boosts_monthly_labs edge = (eff_n edge < 20)"

definition boosts_dedicated_hrv :: "EdgeResult \<Rightarrow> bool" where
  "boosts_dedicated_hrv edge =
     (str_includes (target edge) ''hrv'' \<or> str_includes (source edge) ''hrv'')"

definition boosts_cgm :: "EdgeResult \<Rightarrow> bool" where
  "boosts_cgm edge =
     (str_includes (target edge) ''glucose'' \<or> str_includes (source edge) ''glucose'' \<or>
      str_includes (target edge) ''insulin'' \<or> str_includes (target edge) ''hba1c'')"

definition boosts_nutrition :: "EdgeResult \<Rightarrow> bool" where
  "boosts_nutrition edge =
     (str_includes (source edge) ''dietary'' \<or> str_includes (source edge) ''protein'')"

definition boosts_blood_pressure :: "EdgeResult \<Rightarrow> bool" where
  "boosts_blood_pressure edge =
     (str_includes (target edge) ''resting_hr'' \<or> str_includes (target edge) ''hr_7d'' \<or>
      str_includes (toLowerCase (title edge)) ''cardio'')"

definition boosts_mood_stress :: "EdgeResult \<Rightarrow> bool" where
  "boosts_mood_stress edge =
     (str_includes (target edge) ''cortisol'' \<or> str_includes (target edge) ''testosterone'' \<or>
      str_includes (toLowerCase (title edge)) ''sleep'')"

definition boosts_respiratory_rate :: "EdgeResult \<Rightarrow> bool" where
  "boosts_respiratory_rate edge =
     (str_includes (target edge) ''hrv'' \<or> str_includes (target edge) ''sleep'')"

definition boosts_body_temperature :: "EdgeResult \<Rightarrow> bool" where
  "boosts_body_temperature edge =
     (str_includes (target edge) ''sleep'' \<or>
      str_includes (toLowerCase (title edge)) ''sleep'')"

definition push_titles :: "(EdgeResult \<Rightarrow> bool) \<Rightarrow> EdgeResult list \<Rightarrow> string list \<Rightarrow> string list" where
  "push_titles p edgeResults boosted = boosted @ map title (filter p edgeResults)"

definition boostEdges :: "CandidateDataSource \<Rightarrow> EdgeResult list \<Rightarrow> string list" where
  "boostEdges cand edgeResults =
     (let b0 = [];
          b1 = (if cand_id cand = ''monthly_labs''
                then push_titles boosts_monthly_labs edgeResults b0 else b0);
          b2 = (if cand_id cand = ''dedicated_hrv''
                then push_titles boosts_dedicated_hrv edgeResults b1 else b1);
          b3 = (if cand_id cand = ''cgm''
                then push_titles boosts_cgm edgeResults b2 else b2);
          b4 = (if cand_id cand = ''nutrition''
                then push_titles boosts_nutrition edgeResults b3 else b3);
          b5 = (if cand_id cand = ''blood_pressure''
                then push_titles boosts_blood_pressure edgeResults b4 else b4);
          b6 = (if cand_id cand = ''mood_stress''
                then push_titles boosts_mood_stress edgeResults b5 else b5);
          b7 = (if cand_id cand = ''respiratory_rate''
                then push_titles boosts_respiratory_rate edgeResults b6 else b6);
          b8 = (if cand_id cand = ''body_temperature''
                then push_titles boosts_body_temperature edgeResults b7 else b7)
      in b8)"

definition tier_of :: "int \<Rightarrow> tier" where
  "tier_of c =
     (if c \<ge> 70 then Transformative
      else if c \<ge> 45 then High
      else if c \<ge> 20 then Moderate
      else Low)"

text \<open>
  Lines 113 to 258: the counts, the capped points, the composite score, the tier and
  the returned object, from the two filtered lists of mechanisms and the two arrays
  of strings.
\<close>

definition assemble_score ::
    "string \<Rightarrow> MechanismDef list \<Rightarrow> MechanismDef list \<Rightarrow> string list \<Rightarrow> string list \<Rightarrow>
     MarginalValueScore" where
  "assemble_score cid current augmentedTestable resolved boosted =
     (let currentTestable = set (map m_id current);
          newlyUnlocked = filter (\<lambda>m. m_id m \<notin> currentTestable) augmentedTestable;
          n_edges = int (length newlyUnlocked);
          edge_points = min 40 (n_edges * 15);
          n_confounders = int (length resolved);
          confounder_points = min 30 (n_confounders * 15);
          n_boost = int (length boosted);
          boost_points = min 30 (n_boost * 5);
          comp = min 100 (edge_points + confounder_points + boost_points)
      in \<lparr>candidateId = cid,
          composite = comp,
          newEdgesUnlocked = n_edges,
          newEdgePoints = edge_points,
          confoundersResolved = n_confounders,
          confounderPoints = confounder_points,
          signalBoostEdges = n_boost,
          signalBoostPoints = boost_points,
          tier = tier_of comp,
          unlockedMechanisms = newlyUnlocked,
          resolvedLatentNodes = resolved,
          boostedEdgeTitles = boosted\<rparr>)"

definition computeMarginalValue ::
    "CandidateDataSource \<Rightarrow> string set \<Rightarrow> EdgeResult list \<Rightarrow> error + MarginalValueScore" where
  "computeMarginalValue cand availableColumns edgeResults =
     bind_r (augmentColumns cand availableColumns) (\<lambda>augmentedColumns.
     bind_r (testableMechanisms availableColumns) (\<lambda>current.
     bind_r (testableMechanisms augmentedColumns) (\<lambda>augmentedTestable.
       Inr (assemble_score (cand_id cand) current augmentedTestable
              (resolveLatentNodes cand) (boostEdges cand edgeResults)))))"

section \<open>Ranking\<close>

text \<open>
  The array \<^verbatim>\<open>CANDIDATE_DATA_SOURCES\<close> of \<^verbatim>\<open>candidateDataSources.ts\<close> is a parameter
  of the model. \<^verbatim>\<open>Array.prototype.sort\<close> is stable;
  with the comparator \<^verbatim>\<open>b.score.composite - a.score.composite\<close> it is a stable sort
  by descending composite score.
\<close>

record RankedCandidate =
  candidate :: CandidateDataSource
  score :: MarginalValueScore

fun map_r :: "('a \<Rightarrow> error + 'b) \<Rightarrow> 'a list \<Rightarrow> error + 'b list" where
  "map_r f [] = Inr []"
| "map_r f (x # xs) =
     bind_r (f x) (\<lambda>y. bind_r (map_r f xs) (\<lambda>ys. Inr (y # ys)))"

definition rankCandidates ::
    "CandidateDataSource list \<Rightarrow> string set \<Rightarrow> EdgeResult list \<Rightarrow> error + RankedCandidate list" where
  "rankCandidates CANDIDATE_DATA_SOURCES availableColumns edgeResults =
     bind_r (map_r (\<lambda>cand.
               bind_r (computeMarginalValue cand availableColumns edgeResults) (\<lambda>sc.
                 Inr \<lparr>candidate = cand, score = sc\<rparr>))
             CANDIDATE_DATA_SOURCES)
       (\<lambda>results. Inr (sort_key (\<lambda>r. - composite (score r)) results))"

section \<open>The specification's vocabulary\<close>

text \<open>
  A family is available when it is an entry of the catalog and at least one of its
  columns is in the column set; a mechanism is testable when both of its families
  are available.
\<close>

definition dose_family_available :: "string \<Rightarrow> string set \<Rightarrow> bool" where
  "dose_family_available fid cols =
     (case map_of DOSE_FAMILIES fid of
        None \<Rightarrow> False
      | Some fam \<Rightarrow> \<exists>c \<in> set (df_columns fam). c \<in> cols)"

definition response_family_available :: "string \<Rightarrow> string set \<Rightarrow> bool" where
  "response_family_available fid cols =
     (case map_of RESPONSE_FAMILIES fid of
        None \<Rightarrow> False
      | Some fam \<Rightarrow> \<exists>c \<in> set (rf_columns fam). c \<in> cols)"

definition mechanism_testable :: "string set \<Rightarrow> MechanismDef \<Rightarrow> bool" where
  "mechanism_testable cols m =
     (dose_family_available (doseFamily m) cols \<and>
      response_family_available (responseFamily m) cols)"

text \<open>
  The entry that \<^verbatim>\<open>getCurrentlyTestableEdges\<close> builds for a mechanism of the catalog.
\<close>

definition catalog_entry :: "string set \<Rightarrow> MechanismDef \<Rightarrow> MechanismTestability" where
  "catalog_entry cols m =
     testability_entry m (dose_family_available (doseFamily m) cols)
       (response_family_available (responseFamily m) cols)"

text \<open>The columns a listed family id contributes: those of the catalog entry, if there is one.\<close>

definition dose_family_columns :: "string \<Rightarrow> string set" where
  "dose_family_columns fid =
     (case map_of DOSE_FAMILIES fid of None \<Rightarrow> {} | Some fam \<Rightarrow> set (df_columns fam))"

definition response_family_columns :: "string \<Rightarrow> string set" where
  "response_family_columns fid =
     (case map_of RESPONSE_FAMILIES fid of None \<Rightarrow> {} | Some fam \<Rightarrow> set (rf_columns fam))"

definition augmented_columns :: "CandidateDataSource \<Rightarrow> string set \<Rightarrow> string set" where
  "augmented_columns cand cols =
     cols \<union> set (newColumns cand)
          \<union> (\<Union>fid \<in> set (newDoseFamilies cand). dose_family_columns fid)
          \<union> (\<Union>fid \<in> set (newResponseFamilies cand). response_family_columns fid)"

text \<open>
  No family id listed by the candidate reads as a property inherited from
  \<^verbatim>\<open>Object.prototype\<close>.
\<close>

definition families_readable :: "CandidateDataSource \<Rightarrow> bool" where
  "families_readable cand =
     ((\<forall>fid \<in> set (newDoseFamilies cand). get_property DOSE_FAMILIES fid \<noteq> Inherited) \<and>
      (\<forall>fid \<in> set (newResponseFamilies cand). get_property RESPONSE_FAMILIES fid \<noteq> Inherited))"

text \<open>
  The substring heuristic and the special cases of the confounder step, and the ids
  with a signal-boost rule, as the specification words them.
\<close>

definition heuristic_match :: "CandidateDataSource \<Rightarrow> string \<Rightarrow> bool" where
  "heuristic_match cand latent =
     (\<exists>col \<in> set (newColumns cand).
        sublist (remove_underscores (toLowerCase latent)) (toLowerCase col) \<or>
        sublist (remove_underscores (toLowerCase col)) (remove_underscores (toLowerCase latent)))"

definition special_case :: "string \<Rightarrow> string \<Rightarrow> bool" where
  "special_case cid latent =
     ((cid = ''body_temperature'' \<and> latent = ''core_temperature'') \<or>
      (cid = ''mood_stress'' \<and> latent = ''energy_expenditure'') \<or>
      (cid = ''genetic_data'' \<and>
         (latent = ''insulin_sensitivity'' \<or> latent = ''lipoprotein_lipase'')))"

definition boost_rule_ids :: "string list" where
  "boost_rule_ids =
     [''monthly_labs'', ''dedicated_hrv'', ''cgm'', ''nutrition'', ''blood_pressure'',
      ''mood_stress'', ''respiratory_rate'', ''body_temperature'']"

text \<open>
  An element of the ranking pairs a candidate with the score computed for it.
\<close>

definition scored ::
    "string set \<Rightarrow> EdgeResult list \<Rightarrow> CandidateDataSource \<Rightarrow> RankedCandidate \<Rightarrow> bool" where
  "scored cols es cand r \<longleftrightarrow>
     candidate r = cand \<and> computeMarginalValue cand cols es = Inr (score r)"

section \<open>The engine over a store of mutable objects\<close>

text \<open>
  The functions above compute with values. To state what a call does to the objects
  it is given, the same functions are modelled over a store. The only mutating
  operations in the engine are \<^verbatim>\<open>Set.prototype.add\<close> and \<^verbatim>\<open>Array.prototype.push\<close>;
  no statement assigns to a property. So the store holds the \<^verbatim>\<open>Set\<close> objects and
  the arrays, and the candidate object with the references to its three arrays;
  an address is an index into the store, and \<^verbatim>\<open>new Set(...)\<close> and an array literal
  \<^verbatim>\<open>[]\<close> allocate a new address at the end. The static catalog is only read and stays
  outside the store, and so does an array that \<^verbatim>\<open>filter\<close> or \<^verbatim>\<open>map\<close> returns and
  that nothing pushes to.
\<close>

type_synonym addr = nat

record CandidateObj =
  co_id :: string
  co_newDoseFamilies :: addr
  co_newResponseFamilies :: addr
  co_newColumns :: addr

datatype obj =
    SetObj "string set"
  | StringArray "string list"
  | EdgeArray "EdgeResult list"
  | TestabilityArray "MechanismTestability list"
  | CandObj CandidateObj

type_synonym store = "obj list"

text \<open>
  A statement runs on a store and leaves a store, whether it completes (\<open>Inr\<close>) or
  throws (\<open>Inl\<close>).
\<close>

type_synonym 'a prog = "store \<Rightarrow> (error + 'a) \<times> store"

definition return_s :: "'a \<Rightarrow> 'a prog" where
  "return_s x st = (Inr x, st)"

definition throw_s :: "error \<Rightarrow> 'a prog" where
  "throw_s e st = (Inl e, st)"

definition lift_r :: "error + 'a \<Rightarrow> 'a prog" where
  "lift_r r st = (r, st)"

definition bind_s :: "'a prog \<Rightarrow> ('a \<Rightarrow> 'b prog) \<Rightarrow> 'b prog" where
  "bind_s m f st = (case m st of (Inl e, st') \<Rightarrow> (Inl e, st') | (Inr x, st') \<Rightarrow> f x st')"

fun for_each :: "'a list \<Rightarrow> ('a \<Rightarrow> unit prog) \<Rightarrow> unit prog" where
  "for_each [] body = return_s ()"
| "for_each (x # xs) body = bind_s (body x) (\<lambda>_. for_each xs body)"

definition when_s :: "bool \<Rightarrow> unit prog \<Rightarrow> unit prog" where
  "when_s b m = (if b then m else return_s ())"

text \<open>Allocation and the typed reads; a read at an address of another kind throws.\<close>

definition new_obj :: "obj \<Rightarrow> addr prog" where
  "new_obj v st = (Inr (length st), st @ [v])"

definition read_obj :: "addr \<Rightarrow> obj prog" where
  "read_obj a st = (if a < length st then (Inr (st ! a), st) else (Inl TypeError, st))"

definition read_set :: "addr \<Rightarrow> string set prog" where
  "read_set a = bind_s (read_obj a) (\<lambda>v. case v of SetObj S \<Rightarrow> return_s S | _ \<Rightarrow> throw_s TypeError)"

definition read_strings :: "addr \<Rightarrow> string list prog" where
  "read_strings a =
     bind_s (read_obj a) (\<lambda>v. case v of StringArray xs \<Rightarrow> return_s xs | _ \<Rightarrow> throw_s TypeError)"

definition read_edges :: "addr \<Rightarrow> EdgeResult list prog" where
  "read_edges a =
     bind_s (read_obj a) (\<lambda>v. case v of EdgeArray es \<Rightarrow> return_s es | _ \<Rightarrow> throw_s TypeError)"

definition read_entries :: "addr \<Rightarrow> MechanismTestability list prog" where
  "read_entries a =
     bind_s (read_obj a) (\<lambda>v. case v of TestabilityArray es \<Rightarrow> return_s es | _ \<Rightarrow> throw_s TypeError)"

definition read_candidate :: "addr \<Rightarrow> CandidateObj prog" where
  "read_candidate a =
     bind_s (read_obj a) (\<lambda>v. case v of CandObj c \<Rightarrow> return_s c | _ \<Rightarrow> throw_s TypeError)"

text \<open>The two mutating operations: they replace the object at the given address.\<close>

definition write_obj :: "addr \<Rightarrow> obj \<Rightarrow> unit prog" where
  "write_obj a v st = (Inr (), st[a := v])"

definition Set_add :: "addr \<Rightarrow> string \<Rightarrow> unit prog" where
  "Set_add a x = bind_s (read_set a) (\<lambda>S. write_obj a (SetObj (insert x S)))"

definition push_string :: "addr \<Rightarrow> string \<Rightarrow> unit prog" where
  "push_string a x = bind_s (read_strings a) (\<lambda>xs. write_obj a (StringArray (xs @ [x])))"

definition push_entry :: "addr \<Rightarrow> MechanismTestability \<Rightarrow> unit prog" where
  "push_entry a e = bind_s (read_entries a) (\<lambda>es. write_obj a (TestabilityArray (es @ [e])))"

text \<open>\<^verbatim>\<open>getCurrentlyTestableEdges\<close> over the store; it returns the two new arrays.\<close>

definition getCurrentlyTestableEdges_st :: "addr \<Rightarrow> (addr \<times> addr) prog" where
  "getCurrentlyTestableEdges_st availableColumns =
     bind_s (new_obj (TestabilityArray [])) (\<lambda>testable_arr.
     bind_s (new_obj (TestabilityArray [])) (\<lambda>untestable_arr.
     bind_s (for_each MECHANISM_CATALOG (\<lambda>mech.
        bind_s (read_set availableColumns) (\<lambda>cols.
        bind_s (lift_r (hasDoseData (doseFamily mech) cols)) (\<lambda>doseOk.
        bind_s (lift_r (hasResponseData (responseFamily mech) cols)) (\<lambda>responseOk.
          let entry = testability_entry mech doseOk responseOk in
          if testable entry then push_entry testable_arr entry
          else push_entry untestable_arr entry))))) (\<lambda>_.
     return_s (testable_arr, untestable_arr))))"

text \<open>Lines 91 to 103: the copy of the column set and the additions to the copy.\<close>

definition augmentColumns_st :: "CandidateObj \<Rightarrow> addr \<Rightarrow> addr prog" where
  "augmentColumns_st cand availableColumns =
     bind_s (read_set availableColumns) (\<lambda>cols.
     bind_s (new_obj (SetObj cols)) (\<lambda>augmentedColumns.
     bind_s (read_strings (co_newColumns cand)) (\<lambda>newCols.
     bind_s (for_each newCols (Set_add augmentedColumns)) (\<lambda>_.
     bind_s (read_strings (co_newDoseFamilies cand)) (\<lambda>dfIds.
     bind_s (for_each dfIds (\<lambda>dfId.
        case get_property DOSE_FAMILIES dfId of
          Undefined \<Rightarrow> return_s ()
        | Inherited \<Rightarrow> throw_s TypeError
        | Own fam \<Rightarrow> for_each (df_columns fam) (Set_add augmentedColumns))) (\<lambda>_.
     bind_s (read_strings (co_newResponseFamilies cand)) (\<lambda>rfIds.
     bind_s (for_each rfIds (\<lambda>rfId.
        case get_property RESPONSE_FAMILIES rfId of
          Undefined \<Rightarrow> return_s ()
        | Inherited \<Rightarrow> throw_s TypeError
        | Own fam \<Rightarrow> for_each (rf_columns fam) (Set_add augmentedColumns))) (\<lambda>_.
     return_s augmentedColumns))))))))"

text \<open>Lines 118 to 153: the new array \<^verbatim>\<open>resolvedLatentNodes\<close> and the pushes to it.\<close>

definition push_unless_included_st :: "addr \<Rightarrow> string \<Rightarrow> unit prog" where
  "push_unless_included_st a x =
     bind_s (read_strings a) (\<lambda>xs. when_s (x \<notin> set xs) (push_string a x))"

definition resolveLatentNodes_st :: "CandidateObj \<Rightarrow> addr prog" where
  "resolveLatentNodes_st cand =
     bind_s (new_obj (StringArray [])) (\<lambda>resolved.
     bind_s (for_each LATENT_NODES (\<lambda>latent.
        bind_s (read_strings (co_newColumns cand)) (\<lambda>newCols.
          when_s (list_ex (matches_latent latent) newCols) (push_string resolved latent)))) (\<lambda>_.
     bind_s (when_s (co_id cand = ''body_temperature'')
               (push_unless_included_st resolved ''core_temperature'')) (\<lambda>_.
     bind_s (when_s (co_id cand = ''mood_stress'')
               (push_unless_included_st resolved ''energy_expenditure'')) (\<lambda>_.
     bind_s (when_s (co_id cand = ''genetic_data'')
               (bind_s (push_unless_included_st resolved ''insulin_sensitivity'') (\<lambda>_.
                  push_unless_included_st resolved ''lipoprotein_lipase''))) (\<lambda>_.
     return_s resolved)))))"

text \<open>Lines 158 to 231: the new array \<^verbatim>\<open>boostedEdgeTitles\<close> and the eight loops.\<close>

definition push_titles_st :: "(EdgeResult \<Rightarrow> bool) \<Rightarrow> addr \<Rightarrow> addr \<Rightarrow> unit prog" where
  "push_titles_st p edgeResults boosted =
     bind_s (read_edges edgeResults) (\<lambda>edges.
       for_each edges (\<lambda>edge. when_s (p edge) (push_string boosted (title edge))))"

definition boostEdges_st :: "CandidateObj \<Rightarrow> addr \<Rightarrow> addr prog" where
  "boostEdges_st cand edgeResults =
     bind_s (new_obj (StringArray [])) (\<lambda>boosted.
     bind_s (when_s (co_id cand = ''monthly_labs'')
               (push_titles_st boosts_monthly_labs edgeResults boosted)) (\<lambda>_.
     bind_s (when_s (co_id cand = ''dedicated_hrv'')
               (push_titles_st boosts_dedicated_hrv edgeResults boosted)) (\<lambda>_.
     bind_s (when_s (co_id cand = ''cgm'')
               (push_titles_st boosts_cgm edgeResults boosted)) (\<lambda>_.
     bind_s (when_s (co_id cand = ''nutrition'')
               (push_titles_st boosts_nutrition edgeResults boosted)) (\<lambda>_.
     bind_s (when_s (co_id cand = ''blood_pressure'')
               (push_titles_st boosts_blood_pressure edgeResults boosted)) (\<lambda>_.
     bind_s (when_s (co_id cand = ''mood_stress'')
               (push_titles_st boosts_mood_stress edgeResults boosted)) (\<lambda>_.
     bind_s (when_s (co_id cand = ''respiratory_rate'')
               (push_titles_st boosts_respiratory_rate edgeResults boosted)) (\<lambda>_.
     bind_s (when_s (co_id cand = ''body_temperature'')
               (push_titles_st boosts_body_temperature edgeResults boosted)) (\<lambda>_.
     return_s boosted)))))))))"

text \<open>
  The score object refers to the two arrays built by \<^verbatim>\<open>push\<close>; its other fields are
  those of \<open>MarginalValueScore\<close>.
\<close>

record ScoreObj =
  so_candidateId :: string
  so_composite :: int
  so_newEdgesUnlocked :: int
  so_newEdgePoints :: int
  so_confoundersResolved :: int
  so_confounderPoints :: int
  so_signalBoostEdges :: int
  so_signalBoostPoints :: int
  so_tier :: tier
  so_unlockedMechanisms :: "MechanismDef list"
  so_resolvedLatentNodes :: addr
  so_boostedEdgeTitles :: addr

definition score_obj :: "MarginalValueScore \<Rightarrow> addr \<Rightarrow> addr \<Rightarrow> ScoreObj" where
  "score_obj s resolved_ref boosted_ref =
     \<lparr>so_candidateId = candidateId s,
      so_composite = composite s,
      so_newEdgesUnlocked = newEdgesUnlocked s,
      so_newEdgePoints = newEdgePoints s,
      so_confoundersResolved = confoundersResolved s,
      so_confounderPoints = confounderPoints s,
      so_signalBoostEdges = signalBoostEdges s,
      so_signalBoostPoints = signalBoostPoints s,
      so_tier = tier s,
      so_unlockedMechanisms = unlockedMechanisms s,
      so_resolvedLatentNodes = resolved_ref,
      so_boostedEdgeTitles = boosted_ref\<rparr>"

definition computeMarginalValue_st :: "addr \<Rightarrow> addr \<Rightarrow> addr \<Rightarrow> ScoreObj prog" where
  "computeMarginalValue_st candidate_ref availableColumns edgeResults =
     bind_s (read_candidate candidate_ref) (\<lambda>cand.
     bind_s (augmentColumns_st cand availableColumns) (\<lambda>augmentedColumns.
     bind_s (read_set availableColumns) (\<lambda>cols.
     bind_s (lift_r (testableMechanisms cols)) (\<lambda>current.
     bind_s (read_set augmentedColumns) (\<lambda>augmented.
     bind_s (lift_r (testableMechanisms augmented)) (\<lambda>augmentedTestable.
     bind_s (resolveLatentNodes_st cand) (\<lambda>resolvedLatentNodes_ref.
     bind_s (read_strings resolvedLatentNodes_ref) (\<lambda>resolved.
     bind_s (boostEdges_st cand edgeResults) (\<lambda>boostedEdgeTitles_ref.
     bind_s (read_strings boostedEdgeTitles_ref) (\<lambda>boosted.
       return_s (score_obj
                   (assemble_score (co_id cand) current augmentedTestable resolved boosted)
                   resolvedLatentNodes_ref boostedEdgeTitles_ref)))))))))))"

text \<open>
  What a store holds at an address, and the store objects that stand for a candidate.
\<close>

definition set_at :: "store \<Rightarrow> addr \<Rightarrow> string set \<Rightarrow> bool" where
  "set_at st a S \<longleftrightarrow> a < length st \<and> st ! a = SetObj S"

definition strings_at :: "store \<Rightarrow> addr \<Rightarrow> string list \<Rightarrow> bool" where
  "strings_at st a xs \<longleftrightarrow> a < length st \<and> st ! a = StringArray xs"

definition edges_at :: "store \<Rightarrow> addr \<Rightarrow> EdgeResult list \<Rightarrow> bool" where
  "edges_at st a es \<longleftrightarrow> a < length st \<and> st ! a = EdgeArray es"

definition entries_at :: "store \<Rightarrow> addr \<Rightarrow> MechanismTestability list \<Rightarrow> bool" where
  "entries_at st a es \<longleftrightarrow> a < length st \<and> st ! a = TestabilityArray es"

definition candidate_obj :: "store \<Rightarrow> CandidateObj \<Rightarrow> CandidateDataSource \<Rightarrow> bool" where
  "candidate_obj st co cand \<longleftrightarrow>
     co_id co = cand_id cand \<and>
     strings_at st (co_newDoseFamilies co) (newDoseFamilies cand) \<and>
     strings_at st (co_newResponseFamilies co) (newResponseFamilies cand) \<and>
     strings_at st (co_newColumns co) (newColumns cand)"

definition candidate_at :: "store \<Rightarrow> addr \<Rightarrow> CandidateDataSource \<Rightarrow> bool" where
  "candidate_at st a cand \<longleftrightarrow>
     (\<exists>co. a < length st \<and> st ! a = CandObj co \<and> candidate_obj st co cand)"

text \<open>
  A statement preserves the objects below address \<open>n\<close>: run on a store that has them, it
  leaves a store that has them unchanged, whether it completes or throws; \<open>Q\<close> holds
  for the value of a completed run.
\<close>

definition preserves :: "nat \<Rightarrow> 'a prog \<Rightarrow> ('a \<Rightarrow> bool) \<Rightarrow> bool" where
  "preserves n m Q \<longleftrightarrow>
     (\<forall>st. n \<le> length st \<longrightarrow>
        (case m st of (r, st') \<Rightarrow>
           n \<le> length st' \<and> take n st' = take n st \<and>
           (case r of Inl e \<Rightarrow> True | Inr x \<Rightarrow> Q x)))"

section \<open>Sample inputs\<close>

definition sample_columns :: "string set" where
  "sample_columns = {''daily_run_km'', ''daily_duration_min'', ''sleep_duration_hrs'', ''hrv_daily_mean''}"

definition sample_edges :: "EdgeResult list" where
  "sample_edges =
    [\<lparr>title = ''Sleep Duration -> HRV'', source = ''sleep_duration_hrs'',
      target = ''hrv_daily_mean'', curve = ''linear'', theta = 7.5, theta_unit = ''hrs'',
      theta_ci = ''6.9-8.1'', bb = 2.1, ba = 0.4, bb_desc = ''ms per hour'',
      ba_desc = ''ms per hour'', effect_unit = ''ms'', eff_n = 41.5, raw_n = 120,
      personal_pct = 62\<rparr>,
     \<lparr>title = ''Running Volume -> Ferritin'', source = ''daily_run_km'',
      target = ''ferritin_smoothed'', curve = ''plateau_down'', theta = 42, theta_unit = ''km'',
      theta_ci = ''35-50'', bb = -0.2, ba = -1.3, bb_desc = ''ng/mL per km'',
      ba_desc = ''ng/mL per km'', effect_unit = ''ng/mL'', eff_n = 6, raw_n = 9,
      personal_pct = 18\<rparr>,
     \<lparr>title = ''Training Hours -> Glucose'', source = ''daily_duration_min'',
      target = ''glucose_smoothed'', curve = ''linear'', theta = 60, theta_unit = ''min'',
      theta_ci = ''45-80'', bb = -0.05, ba = -0.01, bb_desc = ''mg/dL per min'',
      ba_desc = ''mg/dL per min'', effect_unit = ''mg/dL'', eff_n = 19.9, raw_n = 22,
      personal_pct = 25\<rparr>]"

definition sample_candidate ::
    "string \<Rightarrow> string list \<Rightarrow> string list \<Rightarrow> string list \<Rightarrow> CandidateDataSource" where
  "sample_candidate cid dfs rfs cols =
    \<lparr>cand_id = cid, cand_name = ''Sample source'', cand_icon = ''Activity'',
     cand_category = ''Wearable'', description = ''A sample candidate data source'',
     exampleProducts = [], newDoseFamilies = dfs, newResponseFamilies = rfs,
     newColumns = cols, frequency = ''daily'', keyEdgeNarratives = []\<rparr>"

definition sample_cgm :: CandidateDataSource where
  "sample_cgm = sample_candidate ''cgm'' [] [''glucose'', ''insulin''] [''glucose_cgm_mean'']"

definition sample_body_temperature :: CandidateDataSource where
  "sample_body_temperature =
     sample_candidate ''body_temperature'' [] [] [''skin_temp_c'', ''Leptin_ngml'']"

definition sample_monthly_labs :: CandidateDataSource where
  "sample_monthly_labs = sample_candidate ''monthly_labs'' [] [''folate''] [''folate_smoothed'']"

definition sample_sleep_diary :: CandidateDataSource where
  "sample_sleep_diary =
     sample_candidate ''sleep_diary'' [''nap_minutes''] [''sleep_quality''] [''nap_min'']"

definition sample_inherited :: CandidateDataSource where
  "sample_inherited = sample_candidate ''nutrition'' [''constructor''] [] []"

definition sample_sources :: "CandidateDataSource list" where
  "sample_sources =
     [sample_monthly_labs, sample_cgm, sample_sleep_diary, sample_body_temperature]"

text \<open>
  A store with the sample column set, the arrays of \<open>sample_cgm\<close>, the candidate
  object and the sample edge results, at the addresses 0 to 5.
\<close>

definition sample_store :: store where
  "sample_store =
     [SetObj sample_columns,
      StringArray (newDoseFamilies sample_cgm),
      StringArray (newResponseFamilies sample_cgm),
      StringArray (newColumns sample_cgm),
      CandObj \<lparr>co_id = cand_id sample_cgm, co_newDoseFamilies = 1,
               co_newResponseFamilies = 2, co_newColumns = 3\<rparr>,
      EdgeArray sample_edges]"

section \<open>Basic facts\<close>

lemma bind_r_Inr [simp]: "bind_r (Inr x) f = f x"
  by (simp add: bind_r_def)

lemma bind_r_Inl [simp]: "bind_r (Inl e) f = Inl e"
  by (simp add: bind_r_def)

lemma bind_r_eq_Inr: "bind_r m f = Inr y \<longleftrightarrow> (\<exists>x. m = Inr x \<and> f x = Inr y)"
  by (cases m) simp_all

lemma get_property_Own: "get_property obj k = Own v \<longleftrightarrow> map_of obj k = Some v"
  by (auto simp: get_property_def split: option.splits)

lemma get_property_cases:
  "map_of obj k = None \<Longrightarrow> get_property obj k = (if k \<in> set Object_prototype_keys then Inherited else Undefined)"
  by (simp add: get_property_def)

lemma family_keys_distinct:
  "distinct (map fst DOSE_FAMILIES)" "distinct (map fst RESPONSE_FAMILIES)"
  by code_simp+

lemma catalog_ids_distinct: "distinct (map m_id MECHANISM_CATALOG)"
  by code_simp

lemma catalog_families_own:
  "list_all (\<lambda>m. map_of DOSE_FAMILIES (doseFamily m) \<noteq> None \<and>
                 map_of RESPONSE_FAMILIES (responseFamily m) \<noteq> None) MECHANISM_CATALOG"
  by code_simp

lemma latent_nodes_distinct: "distinct LATENT_NODES"
  by code_simp

lemma hasDoseData_own:
  "map_of DOSE_FAMILIES fid \<noteq> None \<Longrightarrow>
   hasDoseData fid cols = Inr (dose_family_available fid cols)"
  by (auto simp: hasDoseData_def dose_family_available_def get_property_def list_ex_iff
           split: option.splits)

lemma hasResponseData_own:
  "map_of RESPONSE_FAMILIES fid \<noteq> None \<Longrightarrow>
   hasResponseData fid cols = Inr (response_family_available fid cols)"
  by (auto simp: hasResponseData_def response_family_available_def get_property_def list_ex_iff
           split: option.splits)

lemma hasDoseData_True_iff:
  "hasDoseData fid cols = Inr True \<longleftrightarrow> dose_family_available fid cols"
  by (auto simp: hasDoseData_def dose_family_available_def get_property_def list_ex_iff
           split: option.splits)

lemma hasResponseData_True_iff:
  "hasResponseData fid cols = Inr True \<longleftrightarrow> response_family_available fid cols"
  by (auto simp: hasResponseData_def response_family_available_def get_property_def list_ex_iff
           split: option.splits)

lemma catalog_member_own:
  assumes "m \<in> set MECHANISM_CATALOG"
  shows "map_of DOSE_FAMILIES (doseFamily m) \<noteq> None"
    and "map_of RESPONSE_FAMILIES (responseFamily m) \<noteq> None"
  using assms catalog_families_own by (auto simp: list_all_iff)

lemma isTestable_catalog:
  assumes "m \<in> set MECHANISM_CATALOG"
  shows "isTestable m cols = Inr (mechanism_testable cols m)"
  using catalog_member_own[OF assms]
  by (simp add: isTestable_def mechanism_testable_def hasDoseData_own hasResponseData_own)

lemma filter_r_total:
  "(\<And>x. x \<in> set xs \<Longrightarrow> p x = Inr (q x)) \<Longrightarrow> filter_r p xs = Inr (filter q xs)"
  by (induction xs) simp_all

lemma testableMechanisms_eq:
  "testableMechanisms cols = Inr (filter (mechanism_testable cols) MECHANISM_CATALOG)"
  unfolding testableMechanisms_def by (rule filter_r_total) (rule isTestable_catalog)

lemma add_dose_families_Inr:
  "(\<forall>fid \<in> set ids. get_property DOSE_FAMILIES fid \<noteq> Inherited) \<Longrightarrow>
   add_dose_families ids acc = Inr (acc \<union> (\<Union>fid \<in> set ids. dose_family_columns fid))"
proof (induction ids arbitrary: acc)
  case Nil
  then show ?case by simp
next
  case (Cons fid ids)
  then show ?case
    by (cases "map_of DOSE_FAMILIES fid")
       (auto simp: get_property_def dose_family_columns_def split: if_splits)
qed

lemma add_dose_families_Inl:
  "\<exists>fid \<in> set ids. get_property DOSE_FAMILIES fid = Inherited \<Longrightarrow>
   add_dose_families ids acc = Inl TypeError"
proof (induction ids arbitrary: acc)
  case Nil
  then show ?case by simp
next
  case (Cons fid ids)
  then show ?case
    by (cases "get_property DOSE_FAMILIES fid") auto
qed

lemma add_response_families_Inr:
  "(\<forall>fid \<in> set ids. get_property RESPONSE_FAMILIES fid \<noteq> Inherited) \<Longrightarrow>
   add_response_families ids acc = Inr (acc \<union> (\<Union>fid \<in> set ids. response_family_columns fid))"
proof (induction ids arbitrary: acc)
  case Nil
  then show ?case by simp
next
  case (Cons fid ids)
  then show ?case
    by (cases "map_of RESPONSE_FAMILIES fid")
       (auto simp: get_property_def response_family_columns_def split: if_splits)
qed

lemma add_response_families_Inl:
  "\<exists>fid \<in> set ids. get_property RESPONSE_FAMILIES fid = Inherited \<Longrightarrow>
   add_response_families ids acc = Inl TypeError"
proof (induction ids arbitrary: acc)
  case Nil
  then show ?case by simp
next
  case (Cons fid ids)
  then show ?case
    by (cases "get_property RESPONSE_FAMILIES fid") auto
qed

lemma augmentColumns_eq:
  "augmentColumns cand cols =
     (if families_readable cand then Inr (augmented_columns cand cols) else Inl TypeError)"
proof (cases "\<forall>fid \<in> set (newDoseFamilies cand). get_property DOSE_FAMILIES fid \<noteq> Inherited")
  case d: True
  show ?thesis
  proof (cases "\<forall>fid \<in> set (newResponseFamilies cand). get_property RESPONSE_FAMILIES fid \<noteq> Inherited")
    case True
    with d show ?thesis
      by (simp add: augmentColumns_def families_readable_def augmented_columns_def
            add_dose_families_Inr add_response_families_Inr)
  next
    case False
    then have "\<exists>fid \<in> set (newResponseFamilies cand). get_property RESPONSE_FAMILIES fid = Inherited"
      by simp
    with d False show ?thesis
      by (simp add: augmentColumns_def families_readable_def
            add_dose_families_Inr add_response_families_Inl)
  qed
next
  case False
  then have "\<exists>fid \<in> set (newDoseFamilies cand). get_property DOSE_FAMILIES fid = Inherited"
    by simp
  with False show ?thesis
    by (simp add: augmentColumns_def families_readable_def add_dose_families_Inl)
qed

lemma computeMarginalValue_Inr:
  assumes "computeMarginalValue cand cols es = Inr s"
  shows "families_readable cand"
    and "unlockedMechanisms s =
           filter (\<lambda>m. m_id m \<notin> m_id ` set (filter (mechanism_testable cols) MECHANISM_CATALOG))
             (filter (mechanism_testable (augmented_columns cand cols)) MECHANISM_CATALOG)"
    and "newEdgesUnlocked s = int (length (unlockedMechanisms s))"
    and "newEdgePoints s = min 40 (newEdgesUnlocked s * 15)"
    and "resolvedLatentNodes s = resolveLatentNodes cand"
    and "confoundersResolved s = int (length (resolvedLatentNodes s))"
    and "confounderPoints s = min 30 (confoundersResolved s * 15)"
    and "boostedEdgeTitles s = boostEdges cand es"
    and "signalBoostEdges s = int (length (boostedEdgeTitles s))"
    and "signalBoostPoints s = min 30 (signalBoostEdges s * 5)"
    and "composite s = min 100 (newEdgePoints s + confounderPoints s + signalBoostPoints s)"
    and "tier s = tier_of (composite s)"
    and "candidateId s = cand_id cand"
  using assms
  by (auto simp: computeMarginalValue_def assemble_score_def augmentColumns_eq
           testableMechanisms_eq Let_def split: if_splits)

lemma computeMarginalValue_returns:
  "families_readable cand \<Longrightarrow> \<exists>s. computeMarginalValue cand cols es = Inr s"
  by (simp add: computeMarginalValue_def augmentColumns_eq testableMechanisms_eq Let_def)

lemma computeMarginalValue_throws:
  "\<not> families_readable cand \<Longrightarrow> computeMarginalValue cand cols es = Inl TypeError"
  by (simp add: computeMarginalValue_def augmentColumns_eq)

subsection \<open>Classification loop\<close>

lemma testable_catalog_entry [simp]:
  "testable (catalog_entry cols m) = mechanism_testable cols m"
  by (simp add: catalog_entry_def testability_entry_def mechanism_testable_def)

lemma mechanism_catalog_entry [simp]: "mechanism (catalog_entry cols m) = m"
  by (simp add: catalog_entry_def testability_entry_def)

lemma classify_loop_eq:
  assumes "set ms \<subseteq> set MECHANISM_CATALOG"
  shows "classify_loop ms cols ta ua =
           Inr (ta @ map (catalog_entry cols) (filter (mechanism_testable cols) ms),
                ua @ map (catalog_entry cols) (filter (\<lambda>m. \<not> mechanism_testable cols m) ms))"
  using assms
proof (induction ms arbitrary: ta ua)
  case Nil
  then show ?case by simp
next
  case (Cons m ms)
  then have m: "m \<in> set MECHANISM_CATALOG" and ms: "set ms \<subseteq> set MECHANISM_CATALOG"
    by simp_all
  have d: "hasDoseData (doseFamily m) cols = Inr (dose_family_available (doseFamily m) cols)"
    by (rule hasDoseData_own) (rule catalog_member_own(1)[OF m])
  have r: "hasResponseData (responseFamily m) cols =
             Inr (response_family_available (responseFamily m) cols)"
    by (rule hasResponseData_own) (rule catalog_member_own(2)[OF m])
  have e: "testability_entry m (dose_family_available (doseFamily m) cols)
             (response_family_available (responseFamily m) cols) = catalog_entry cols m"
    by (simp add: catalog_entry_def)
  show ?case
    by (simp add: d r e Let_def Cons.IH[OF ms])
qed

lemma getCurrentlyTestableEdges_eq:
  "getCurrentlyTestableEdges cols =
     Inr (map (catalog_entry cols) (filter (mechanism_testable cols) MECHANISM_CATALOG),
          map (catalog_entry cols) (filter (\<lambda>m. \<not> mechanism_testable cols m) MECHANISM_CATALOG))"
  by (simp add: getCurrentlyTestableEdges_def classify_loop_eq)

lemma catalog_distinct: "distinct MECHANISM_CATALOG"
  using catalog_ids_distinct by (simp add: distinct_map)

lemma catalog_id_inj: "inj_on m_id (set MECHANISM_CATALOG)"
  using catalog_ids_distinct by (simp add: distinct_map)

lemma catalog_length: "length MECHANISM_CATALOG = 65"
  by code_simp

lemma mset_filter_partition: "mset (filter P xs) + mset (filter (\<lambda>x. \<not> P x) xs) = mset xs"
  by (induction xs) simp_all

subsection \<open>Confounders and signal boost\<close>

lemma str_includes_sublist: "str_includes s t \<longleftrightarrow> sublist t s"
  by (induction s) (simp_all add: sublist_Cons_right)

lemma resolves_heuristic_match: "resolves cand latent \<longleftrightarrow> heuristic_match cand latent"
  by (simp add: resolves_def matches_latent_def heuristic_match_def list_ex_iff Let_def
        str_includes_sublist)

lemma set_push_unless_included: "set (push_unless_included x xs) = insert x (set xs)"
  by (auto simp: push_unless_included_def)

lemma distinct_push_unless_included:
  "distinct xs \<Longrightarrow> distinct (push_unless_included x xs)"
  by (simp add: push_unless_included_def)

lemma set_resolveLatentNodes:
  "x \<in> set (resolveLatentNodes cand) \<longleftrightarrow>
     (x \<in> set LATENT_NODES \<and> heuristic_match cand x) \<or> special_case (cand_id cand) x"
  by (auto simp: resolveLatentNodes_def Let_def set_push_unless_included special_case_def
        resolves_heuristic_match)

lemma distinct_resolveLatentNodes: "distinct (resolveLatentNodes cand)"
  using latent_nodes_distinct
  by (simp add: resolveLatentNodes_def Let_def distinct_push_unless_included)

lemma boostEdges_no_rule:
  "cand_id cand \<notin> set boost_rule_ids \<Longrightarrow> boostEdges cand es = []"
  by (simp add: boostEdges_def boost_rule_ids_def)

lemma boostEdges_monthly_labs:
  "cand_id cand = ''monthly_labs'' \<Longrightarrow>
   boostEdges cand es = map title (filter (\<lambda>edge. eff_n edge < 20) es)"
  by (simp add: boostEdges_def push_titles_def boosts_monthly_labs_def[abs_def])

lemma hasDoseData_undefined:
  "map_of DOSE_FAMILIES fid = None \<Longrightarrow> fid \<notin> set Object_prototype_keys \<Longrightarrow>
   hasDoseData fid cols = Inr False"
  by (simp add: hasDoseData_def get_property_def)

lemma hasResponseData_undefined:
  "map_of RESPONSE_FAMILIES fid = None \<Longrightarrow> fid \<notin> set Object_prototype_keys \<Longrightarrow>
   hasResponseData fid cols = Inr False"
  by (simp add: hasResponseData_def get_property_def)

subsection \<open>Newly unlocked mechanisms\<close>

lemma current_id_test:
  assumes "m \<in> set MECHANISM_CATALOG"
  shows "m_id m \<in> m_id ` set (filter P MECHANISM_CATALOG) \<longleftrightarrow> P m"
proof
  assume "m_id m \<in> m_id ` set (filter P MECHANISM_CATALOG)"
  then obtain m' where m': "m' \<in> set MECHANISM_CATALOG" "P m'" "m_id m = m_id m'"
    by auto
  then have "m = m'"
    using catalog_id_inj assms by (auto dest: inj_onD)
  then show "P m" using m' by simp
next
  assume "P m"
  then show "m_id m \<in> m_id ` set (filter P MECHANISM_CATALOG)"
    using assms by auto
qed

lemma newly_unlocked_eq:
  "filter (\<lambda>m. m_id m \<notin> m_id ` set (filter P MECHANISM_CATALOG)) (filter Q MECHANISM_CATALOG) =
   filter (\<lambda>m. Q m \<and> \<not> P m) MECHANISM_CATALOG"
  unfolding filter_filter
proof (rule filter_cong[OF refl])
  fix m
  assume "m \<in> set MECHANISM_CATALOG"
  then show "(Q m \<and> m_id m \<notin> m_id ` set (filter P MECHANISM_CATALOG)) = (Q m \<and> \<not> P m)"
    using current_id_test[of m P] by blast
qed

lemma length_filter_catalog:
  "length (filter P MECHANISM_CATALOG) = card {m \<in> set MECHANISM_CATALOG. P m}"
proof -
  have "distinct (filter P MECHANISM_CATALOG)"
    using catalog_distinct by simp
  then have "card (set (filter P MECHANISM_CATALOG)) = length (filter P MECHANISM_CATALOG)"
    by (rule distinct_card)
  then show ?thesis by simp
qed

subsection \<open>Monotonicity\<close>

lemma dose_family_available_mono:
  "A \<subseteq> B \<Longrightarrow> dose_family_available fid A \<Longrightarrow> dose_family_available fid B"
  by (auto simp: dose_family_available_def split: option.splits)

lemma response_family_available_mono:
  "A \<subseteq> B \<Longrightarrow> response_family_available fid A \<Longrightarrow> response_family_available fid B"
  by (auto simp: response_family_available_def split: option.splits)

lemma mechanism_testable_mono:
  "A \<subseteq> B \<Longrightarrow> mechanism_testable A m \<Longrightarrow> mechanism_testable B m"
  by (auto simp: mechanism_testable_def
        intro: dose_family_available_mono response_family_available_mono)

lemma isTestable_True_iff: "isTestable m cols = Inr True \<longleftrightarrow> mechanism_testable cols m"
proof (cases "hasDoseData (doseFamily m) cols")
  case (Inl e)
  then have "\<not> dose_family_available (doseFamily m) cols"
    using hasDoseData_True_iff[of "doseFamily m" cols] by simp
  with Inl show ?thesis
    by (simp add: isTestable_def mechanism_testable_def)
next
  case (Inr b)
  then have "b \<longleftrightarrow> dose_family_available (doseFamily m) cols"
    using hasDoseData_True_iff[of "doseFamily m" cols] by simp
  with Inr show ?thesis
    by (simp add: isTestable_def mechanism_testable_def hasResponseData_True_iff)
qed

lemma augmented_columns_superset: "cols \<subseteq> augmented_columns cand cols"
  by (auto simp: augmented_columns_def)

subsection \<open>Ranking\<close>

lemma map_r_Inr_iff: "map_r f xs = Inr ys \<longleftrightarrow> list_all2 (\<lambda>x y. f x = Inr y) xs ys"
proof (induction xs arbitrary: ys)
  case Nil
  then show ?case by auto
next
  case (Cons x xs)
  then show ?case
    by (auto simp: bind_r_eq_Inr list_all2_Cons1)
qed

lemma list_all2_exists:
  "(\<forall>x \<in> set xs. \<exists>y. P x y) \<Longrightarrow> \<exists>ys. list_all2 P xs ys"
proof (induction xs)
  case Nil
  then show ?case by simp
next
  case (Cons x xs)
  then obtain y ys where "P x y" "list_all2 P xs ys"
    by auto
  then have "list_all2 P (x # xs) (y # ys)"
    by simp
  then show ?case ..
qed

lemma score_step_iff:
  "bind_r (computeMarginalValue cand cols es) (\<lambda>sc. Inr \<lparr>candidate = cand, score = sc\<rparr>) = Inr r
     \<longleftrightarrow> scored cols es cand r"
  by (cases "computeMarginalValue cand cols es") (auto simp: scored_def)

lemma list_all2_scored_map:
  "list_all2 (scored cols es) cands rs \<Longrightarrow> map candidate rs = cands"
  by (induction rule: list_all2_induct) (simp_all add: scored_def)

lemma list_all2_scored_set:
  "list_all2 (scored cols es) cands rs \<Longrightarrow> r \<in> set rs \<Longrightarrow>
   computeMarginalValue (candidate r) cols es = Inr (score r)"
  by (induction rule: list_all2_induct) (auto simp: scored_def)

lemma map_r_scored:
  "map_r (\<lambda>cand. bind_r (computeMarginalValue cand cols es)
                   (\<lambda>sc. Inr \<lparr>candidate = cand, score = sc\<rparr>)) cands = Inr results
     \<longleftrightarrow> list_all2 (scored cols es) cands results"
  by (simp only: map_r_Inr_iff score_step_iff)

lemma rankCandidates_Inr_iff:
  "rankCandidates cands cols es = Inr rs \<longleftrightarrow>
     (\<exists>results. list_all2 (scored cols es) cands results \<and>
                rs = sort_key (\<lambda>r. - composite (score r)) results)"
  by (auto simp: rankCandidates_def bind_r_eq_Inr map_r_scored)

section \<open>Facts about the store model\<close>

subsection \<open>Preservation of the objects that exist before a call\<close>

lemma preservesI:
  assumes "\<And>st r st'. n \<le> length st \<Longrightarrow> m st = (r, st') \<Longrightarrow>
             n \<le> length st' \<and> take n st' = take n st \<and> (\<forall>x. r = Inr x \<longrightarrow> Q x)"
  shows "preserves n m Q"
  unfolding preserves_def
proof (intro allI impI)
  fix st :: store
  assume n: "n \<le> length st"
  obtain r st' where m: "m st = (r, st')"
    by (cases "m st")
  from assms[OF n m] show "case m st of (r, st') \<Rightarrow>
           n \<le> length st' \<and> take n st' = take n st \<and>
           (case r of Inl e \<Rightarrow> True | Inr x \<Rightarrow> Q x)"
    by (auto simp: m split: sum.splits)
qed

lemma preservesD:
  assumes "preserves n m Q" and "n \<le> length st" and "m st = (r, st')"
  shows "n \<le> length st'" and "take n st' = take n st" and "r = Inr x \<Longrightarrow> Q x"
  using assms by (auto simp: preserves_def split: prod.splits sum.splits)

lemma preserves_return: "Q x \<Longrightarrow> preserves n (return_s x) Q"
  by (simp add: preserves_def return_s_def)

lemma preserves_throw: "preserves n (throw_s e) Q"
  by (simp add: preserves_def throw_s_def)

lemma preserves_lift: "preserves n (lift_r r) (\<lambda>_. True)"
  by (simp add: preserves_def lift_r_def split: sum.splits)

lemma preserves_weaken:
  "preserves n m Q \<Longrightarrow> (\<And>x. Q x \<Longrightarrow> R x) \<Longrightarrow> preserves n m R"
  by (auto simp: preserves_def split: prod.splits sum.splits)

lemma preserves_bind:
  assumes m: "preserves n m Q" and f: "\<And>x. Q x \<Longrightarrow> preserves n (f x) R"
  shows "preserves n (bind_s m f) R"
proof (rule preservesI)
  fix st r st'
  assume n: "n \<le> length st" and b: "bind_s m f st = (r, st')"
  obtain r1 st1 where m1: "m st = (r1, st1)"
    by (cases "m st")
  note d = preservesD[OF m n m1]
  show "n \<le> length st' \<and> take n st' = take n st \<and> (\<forall>x. r = Inr x \<longrightarrow> R x)"
  proof (cases r1)
    case (Inl e)
    with b m1 have "r = Inl e" "st' = st1"
      by (simp_all add: bind_s_def)
    with d show ?thesis by simp
  next
    case (Inr x)
    with b m1 have fx: "f x st1 = (r, st')"
      by (simp add: bind_s_def)
    have "Q x" using d(3) Inr by simp
    from preservesD[OF f[OF this] d(1) fx] d(2) show ?thesis by auto
  qed
qed

lemma preserves_new_obj: "preserves n (new_obj v) (\<lambda>a. n \<le> a)"
  by (simp add: preserves_def new_obj_def)

lemma preserves_read_obj: "preserves n (read_obj a) (\<lambda>_. True)"
  by (simp add: preserves_def read_obj_def)

lemma preserves_write_obj: "n \<le> a \<Longrightarrow> preserves n (write_obj a v) (\<lambda>_. True)"
  by (simp add: preserves_def write_obj_def)

lemma preserves_read_set: "preserves n (read_set a) (\<lambda>_. True)"
  unfolding read_set_def
  by (rule preserves_bind[OF preserves_read_obj])
     (auto split: obj.splits intro: preserves_return preserves_throw)

lemma preserves_read_strings: "preserves n (read_strings a) (\<lambda>_. True)"
  unfolding read_strings_def
  by (rule preserves_bind[OF preserves_read_obj])
     (auto split: obj.splits intro: preserves_return preserves_throw)

lemma preserves_read_edges: "preserves n (read_edges a) (\<lambda>_. True)"
  unfolding read_edges_def
  by (rule preserves_bind[OF preserves_read_obj])
     (auto split: obj.splits intro: preserves_return preserves_throw)

lemma preserves_read_entries: "preserves n (read_entries a) (\<lambda>_. True)"
  unfolding read_entries_def
  by (rule preserves_bind[OF preserves_read_obj])
     (auto split: obj.splits intro: preserves_return preserves_throw)

lemma preserves_read_candidate: "preserves n (read_candidate a) (\<lambda>_. True)"
  unfolding read_candidate_def
  by (rule preserves_bind[OF preserves_read_obj])
     (auto split: obj.splits intro: preserves_return preserves_throw)

lemma preserves_Set_add: "n \<le> a \<Longrightarrow> preserves n (Set_add a x) (\<lambda>_. True)"
  unfolding Set_add_def
  by (rule preserves_bind[OF preserves_read_set]) (rule preserves_write_obj)

lemma preserves_push_string: "n \<le> a \<Longrightarrow> preserves n (push_string a x) (\<lambda>_. True)"
  unfolding push_string_def
  by (rule preserves_bind[OF preserves_read_strings]) (rule preserves_write_obj)

lemma preserves_push_entry: "n \<le> a \<Longrightarrow> preserves n (push_entry a e) (\<lambda>_. True)"
  unfolding push_entry_def
  by (rule preserves_bind[OF preserves_read_entries]) (rule preserves_write_obj)

lemma preserves_when:
  "preserves n m (\<lambda>_. True) \<Longrightarrow> preserves n (when_s b m) (\<lambda>_. True)"
  by (simp add: when_s_def preserves_return)

lemma preserves_if:
  "preserves n m Q \<Longrightarrow> preserves n k Q \<Longrightarrow> preserves n (if b then m else k) Q"
  by simp

lemma preserves_for_each:
  "(\<And>x. x \<in> set xs \<Longrightarrow> preserves n (body x) (\<lambda>_. True)) \<Longrightarrow>
   preserves n (for_each xs body) (\<lambda>_. True)"
proof (induction xs)
  case Nil
  then show ?case by (simp add: preserves_return)
next
  case (Cons x xs)
  show ?case
    unfolding for_each.simps
    by (rule preserves_bind[where Q = "\<lambda>_. True"]) (simp_all add: Cons)
qed

lemma preserves_push_unless_included:
  "n \<le> a \<Longrightarrow> preserves n (push_unless_included_st a x) (\<lambda>_. True)"
  unfolding push_unless_included_st_def
  by (rule preserves_bind[OF preserves_read_strings])
     (simp add: preserves_when preserves_push_string)

lemma preserves_push_titles:
  "n \<le> boosted \<Longrightarrow> preserves n (push_titles_st p edgeResults boosted) (\<lambda>_. True)"
  unfolding push_titles_st_def
  by (rule preserves_bind[OF preserves_read_edges])
     (simp add: preserves_for_each preserves_when preserves_push_string)

lemma preserves_then:
  "preserves n m (\<lambda>_. True) \<Longrightarrow> preserves n k R \<Longrightarrow> preserves n (bind_s m (\<lambda>_. k)) R"
  by (rule preserves_bind)

lemma preserves_getCurrentlyTestableEdges:
  "preserves n (getCurrentlyTestableEdges_st availableColumns) (\<lambda>_. True)"
  unfolding getCurrentlyTestableEdges_st_def Let_def
  by (rule preserves_bind[OF preserves_new_obj], rule preserves_bind[OF preserves_new_obj])
     (intro preserves_then preserves_for_each preserves_bind[OF preserves_read_set]
        preserves_bind[OF preserves_lift] preserves_if preserves_push_entry preserves_return;
      simp)

lemma preserves_add_dose_family:
  "n \<le> a \<Longrightarrow>
   preserves n (case get_property DOSE_FAMILIES dfId of
          Undefined \<Rightarrow> return_s ()
        | Inherited \<Rightarrow> throw_s TypeError
        | Own fam \<Rightarrow> for_each (df_columns fam) (Set_add a)) (\<lambda>_. True)"
  by (cases "get_property DOSE_FAMILIES dfId")
     (simp_all add: preserves_return preserves_throw preserves_for_each preserves_Set_add)

lemma preserves_add_response_family:
  "n \<le> a \<Longrightarrow>
   preserves n (case get_property RESPONSE_FAMILIES rfId of
          Undefined \<Rightarrow> return_s ()
        | Inherited \<Rightarrow> throw_s TypeError
        | Own fam \<Rightarrow> for_each (rf_columns fam) (Set_add a)) (\<lambda>_. True)"
  by (cases "get_property RESPONSE_FAMILIES rfId")
     (simp_all add: preserves_return preserves_throw preserves_for_each preserves_Set_add)

lemma preserves_augmentColumns:
  "preserves n (augmentColumns_st cand availableColumns) (\<lambda>a. n \<le> a)"
  unfolding augmentColumns_st_def
  by (rule preserves_bind[OF preserves_read_set], rule preserves_bind[OF preserves_new_obj])
     (intro preserves_bind[OF preserves_read_strings] preserves_then
        preserves_for_each preserves_Set_add preserves_add_dose_family
        preserves_add_response_family preserves_return; assumption)

lemma preserves_resolveLatentNodes:
  "preserves n (resolveLatentNodes_st cand) (\<lambda>a. n \<le> a)"
  unfolding resolveLatentNodes_st_def
  by (rule preserves_bind[OF preserves_new_obj])
     (intro preserves_then preserves_for_each preserves_bind[OF preserves_read_strings]
        preserves_when preserves_push_string preserves_push_unless_included preserves_return;
      assumption)

lemma preserves_boostEdges:
  "preserves n (boostEdges_st cand edgeResults) (\<lambda>a. n \<le> a)"
  unfolding boostEdges_st_def
  by (rule preserves_bind[OF preserves_new_obj])
     (intro preserves_then preserves_when preserves_push_titles preserves_return; assumption)

lemma preserves_computeMarginalValue:
  "preserves n (computeMarginalValue_st candidate_ref availableColumns edgeResults) (\<lambda>_. True)"
  unfolding computeMarginalValue_st_def Let_def
  by (intro preserves_bind[OF preserves_read_candidate]
        preserves_bind[OF preserves_augmentColumns]
        preserves_bind[OF preserves_read_set]
        preserves_bind[OF preserves_lift]
        preserves_bind[OF preserves_resolveLatentNodes]
        preserves_bind[OF preserves_read_strings]
        preserves_bind[OF preserves_boostEdges]
        preserves_return TrueI)

lemma preserves_unchanged:
  assumes "preserves (length st) m Q" and "a < length st"
  shows "snd (m st) ! a = st ! a" and "length st \<le> length (snd (m st))"
proof -
  obtain r st' where m: "m st = (r, st')"
    by (cases "m st")
  note d = preservesD[OF assms(1) order_refl m]
  have "take (length st) st' ! a = st' ! a"
    using assms(2) by simp
  then show "snd (m st) ! a = st ! a"
    using d(2) m by simp
  show "length st \<le> length (snd (m st))"
    using d(1) m by simp
qed

subsection \<open>Running the operations\<close>

lemma bind_s_Inr: "m st = (Inr x, st') \<Longrightarrow> bind_s m f st = f x st'"
  by (simp add: bind_s_def)

lemma bind_s_Inl: "m st = (Inl e, st') \<Longrightarrow> bind_s m f st = (Inl e, st')"
  by (simp add: bind_s_def)

lemma run_read_set: "set_at st a S \<Longrightarrow> read_set a st = (Inr S, st)"
  by (simp add: set_at_def read_set_def read_obj_def bind_s_def return_s_def)

lemma run_read_strings: "strings_at st a xs \<Longrightarrow> read_strings a st = (Inr xs, st)"
  by (simp add: strings_at_def read_strings_def read_obj_def bind_s_def return_s_def)

lemma run_read_edges: "edges_at st a es \<Longrightarrow> read_edges a st = (Inr es, st)"
  by (simp add: edges_at_def read_edges_def read_obj_def bind_s_def return_s_def)

lemma run_read_entries: "entries_at st a es \<Longrightarrow> read_entries a st = (Inr es, st)"
  by (simp add: entries_at_def read_entries_def read_obj_def bind_s_def return_s_def)

lemma run_Set_add:
  "set_at st a S \<Longrightarrow> Set_add a x st = (Inr (), st[a := SetObj (insert x S)])"
  by (simp add: Set_add_def bind_s_def run_read_set write_obj_def)

lemma run_push_string:
  "strings_at st a xs \<Longrightarrow> push_string a x st = (Inr (), st[a := StringArray (xs @ [x])])"
  by (simp add: push_string_def bind_s_def run_read_strings write_obj_def)

lemma run_push_entry:
  "entries_at st a es \<Longrightarrow> push_entry a e st = (Inr (), st[a := TestabilityArray (es @ [e])])"
  by (simp add: push_entry_def bind_s_def run_read_entries write_obj_def)

lemma set_at_update [simp]: "a < length st \<Longrightarrow> set_at (st[a := SetObj S]) a S' \<longleftrightarrow> S' = S"
  by (auto simp: set_at_def)

lemma strings_at_update [simp]:
  "a < length st \<Longrightarrow> strings_at (st[a := StringArray xs]) a ys \<longleftrightarrow> ys = xs"
  by (auto simp: strings_at_def)

lemma strings_at_update_other:
  "strings_at st b xs \<Longrightarrow> a \<noteq> b \<Longrightarrow> strings_at (st[a := v]) b xs"
  by (simp add: strings_at_def)

lemma update_same_set: "set_at st a S \<Longrightarrow> st[a := SetObj S] = st"
  by (simp add: set_at_def list_update_same_conv)

lemma update_same_strings: "strings_at st a xs \<Longrightarrow> st[a := StringArray xs] = st"
  by (simp add: strings_at_def list_update_same_conv)

lemma run_add_all:
  "set_at st a S \<Longrightarrow> for_each xs (Set_add a) st = (Inr (), st[a := SetObj (S \<union> set xs)])"
proof (induction xs arbitrary: st S)
  case Nil
  then show ?case by (simp add: return_s_def update_same_set)
next
  case (Cons x xs)
  have a: "a < length st" using Cons.prems by (simp add: set_at_def)
  have s: "set_at (st[a := SetObj (insert x S)]) a (insert x S)"
    using a by simp
  show ?case
    by (simp add: bind_s_def run_Set_add[OF Cons.prems] Cons.IH[OF s])
qed

lemma run_dose_loop:
  assumes "set_at st a S"
  shows "\<exists>S'. for_each ids (\<lambda>dfId.
            case get_property DOSE_FAMILIES dfId of
              Undefined \<Rightarrow> return_s ()
            | Inherited \<Rightarrow> throw_s TypeError
            | Own fam \<Rightarrow> for_each (df_columns fam) (Set_add a)) st =
           (map_sum id (\<lambda>_. ()) (add_dose_families ids S), st[a := SetObj S']) \<and>
           (\<forall>R. add_dose_families ids S = Inr R \<longrightarrow> S' = R)"
  using assms
proof (induction ids arbitrary: st S)
  case Nil
  then show ?case
    by (auto simp: return_s_def update_same_set intro!: exI[of _ S])
next
  case (Cons dfId ids)
  have a: "a < length st" using Cons.prems by (simp add: set_at_def)
  show ?case
  proof (cases "get_property DOSE_FAMILIES dfId")
    case (Own fam)
    have s: "set_at (st[a := SetObj (S \<union> set (df_columns fam))]) a (S \<union> set (df_columns fam))"
      using a by simp
    from Cons.IH[OF s] show ?thesis
      by (simp add: Own bind_s_def run_add_all[OF Cons.prems])
  next
    case Inherited
    then show ?thesis
      using Cons.prems
      by (auto simp: bind_s_def throw_s_def update_same_set intro!: exI[of _ S])
  next
    case Undefined
    from Cons.IH[OF Cons.prems] show ?thesis
      by (simp add: Undefined bind_s_def return_s_def)
  qed
qed

lemma run_response_loop:
  assumes "set_at st a S"
  shows "\<exists>S'. for_each ids (\<lambda>rfId.
            case get_property RESPONSE_FAMILIES rfId of
              Undefined \<Rightarrow> return_s ()
            | Inherited \<Rightarrow> throw_s TypeError
            | Own fam \<Rightarrow> for_each (rf_columns fam) (Set_add a)) st =
           (map_sum id (\<lambda>_. ()) (add_response_families ids S), st[a := SetObj S']) \<and>
           (\<forall>R. add_response_families ids S = Inr R \<longrightarrow> S' = R)"
  using assms
proof (induction ids arbitrary: st S)
  case Nil
  then show ?case
    by (auto simp: return_s_def update_same_set intro!: exI[of _ S])
next
  case (Cons rfId ids)
  have a: "a < length st" using Cons.prems by (simp add: set_at_def)
  show ?case
  proof (cases "get_property RESPONSE_FAMILIES rfId")
    case (Own fam)
    have s: "set_at (st[a := SetObj (S \<union> set (rf_columns fam))]) a (S \<union> set (rf_columns fam))"
      using a by simp
    from Cons.IH[OF s] show ?thesis
      by (simp add: Own bind_s_def run_add_all[OF Cons.prems])
  next
    case Inherited
    then show ?thesis
      using Cons.prems
      by (auto simp: bind_s_def throw_s_def update_same_set intro!: exI[of _ S])
  next
    case Undefined
    from Cons.IH[OF Cons.prems] show ?thesis
      by (simp add: Undefined bind_s_def return_s_def)
  qed
qed

lemma strings_at_append: "strings_at st b xs \<Longrightarrow> strings_at (st @ ext) b xs"
  by (simp add: strings_at_def nth_append)

lemma edges_at_append: "edges_at st b xs \<Longrightarrow> edges_at (st @ ext) b xs"
  by (simp add: edges_at_def nth_append)

lemma set_at_append: "set_at st b S \<Longrightarrow> set_at (st @ ext) b S"
  by (simp add: set_at_def nth_append)

lemma set_at_new [simp]: "set_at (st @ [SetObj S]) (length st) S' \<longleftrightarrow> S' = S"
  by (auto simp: set_at_def)

lemma strings_at_new [simp]: "strings_at (st @ [StringArray xs]) (length st) ys \<longleftrightarrow> ys = xs"
  by (auto simp: strings_at_def)

lemma candidate_obj_append: "candidate_obj st co cand \<Longrightarrow> candidate_obj (st @ ext) co cand"
  by (simp add: candidate_obj_def strings_at_append)

lemma run_augmentColumns:
  assumes c: "candidate_obj st co cand" and a: "set_at st a cols"
  shows "\<exists>S. augmentColumns_st co a st =
           (map_sum id (\<lambda>_. length st) (augmentColumns cand cols), st @ [SetObj S]) \<and>
           (\<forall>R. augmentColumns cand cols = Inr R \<longrightarrow> S = R)"
proof -
  let ?n = "length st"
  let ?S1 = "cols \<union> set (newColumns cand)"
  have nc: "\<And>S. strings_at (st @ [SetObj S]) (co_newColumns co) (newColumns cand)"
    and df: "\<And>S. strings_at (st @ [SetObj S]) (co_newDoseFamilies co) (newDoseFamilies cand)"
    and rf: "\<And>S. strings_at (st @ [SetObj S]) (co_newResponseFamilies co) (newResponseFamilies cand)"
    using c by (simp_all add: candidate_obj_def strings_at_append)
  have s0: "set_at (st @ [SetObj cols]) ?n cols"
    by simp
  have s1: "set_at (st @ [SetObj ?S1]) ?n ?S1"
    by simp
  from run_dose_loop[OF s1, of "newDoseFamilies cand"]
  obtain S2 where d: "for_each (newDoseFamilies cand) (\<lambda>dfId.
            case get_property DOSE_FAMILIES dfId of
              Undefined \<Rightarrow> return_s ()
            | Inherited \<Rightarrow> throw_s TypeError
            | Own fam \<Rightarrow> for_each (df_columns fam) (Set_add ?n)) (st @ [SetObj ?S1]) =
           (map_sum id (\<lambda>_. ()) (add_dose_families (newDoseFamilies cand) ?S1), st @ [SetObj S2])"
    and d': "\<And>R. add_dose_families (newDoseFamilies cand) ?S1 = Inr R \<Longrightarrow> S2 = R"
    by auto
  have s2: "set_at (st @ [SetObj S2]) ?n S2"
    by simp
  from run_response_loop[OF s2, of "newResponseFamilies cand"]
  obtain S3 where r: "for_each (newResponseFamilies cand) (\<lambda>rfId.
            case get_property RESPONSE_FAMILIES rfId of
              Undefined \<Rightarrow> return_s ()
            | Inherited \<Rightarrow> throw_s TypeError
            | Own fam \<Rightarrow> for_each (rf_columns fam) (Set_add ?n)) (st @ [SetObj S2]) =
           (map_sum id (\<lambda>_. ()) (add_response_families (newResponseFamilies cand) S2), st @ [SetObj S3])"
    and r': "\<And>R. add_response_families (newResponseFamilies cand) S2 = Inr R \<Longrightarrow> S3 = R"
    by auto
  show ?thesis
  proof (cases "add_dose_families (newDoseFamilies cand) ?S1")
    case (Inl e)
    then show ?thesis
      using d
      by (auto simp: augmentColumns_st_def augmentColumns_def bind_s_def run_read_set[OF a]
            new_obj_def run_read_strings[OF nc] run_read_strings[OF df] run_add_all[OF s0])
  next
    case (Inr R)
    then have R: "S2 = R" by (rule d')
    show ?thesis
    proof (cases "add_response_families (newResponseFamilies cand) S2")
      case (Inl e)
      then show ?thesis
        using d r Inr R
        by (auto simp: augmentColumns_st_def augmentColumns_def bind_s_def run_read_set[OF a]
              new_obj_def run_read_strings[OF nc] run_read_strings[OF df]
              run_read_strings[OF rf] run_add_all[OF s0])
    next
      case Inr2: (Inr R2)
      then have "S3 = R2" by (rule r')
      then show ?thesis
        using d r Inr R Inr2
        by (auto simp: augmentColumns_st_def augmentColumns_def bind_s_def run_read_set[OF a]
              new_obj_def run_read_strings[OF nc] run_read_strings[OF df]
              run_read_strings[OF rf] run_add_all[OF s0] return_s_def)
    qed
  qed
qed

lemma for_each_weak_cong: "xs = ys \<Longrightarrow> for_each xs body = for_each ys body"
  by simp

lemma for_each_Cons_run:
  "body x st = (Inr (), st') \<Longrightarrow> for_each (x # xs) body st = for_each xs body st'"
  by (simp add: bind_s_def)

lemma run_latent_loop:
  assumes "strings_at st nc ncols" and "strings_at st r ys" and "nc \<noteq> r"
  shows "for_each ls (\<lambda>latent.
           bind_s (read_strings nc) (\<lambda>newCols.
             when_s (list_ex (matches_latent latent) newCols) (push_string r latent))) st =
         (Inr (), st[r := StringArray (ys @ filter (\<lambda>l. list_ex (matches_latent l) ncols) ls)])"
  using assms
proof (induction ls arbitrary: st ys)
  case Nil
  then show ?case by (simp add: return_s_def update_same_strings)
next
  case (Cons l ls)
  let ?body = "\<lambda>latent. bind_s (read_strings nc) (\<lambda>newCols.
             when_s (list_ex (matches_latent latent) newCols) (push_string r latent))"
  have r: "r < length st" using Cons.prems(2) by (simp add: strings_at_def)
  show ?case
  proof (cases "list_ex (matches_latent l) ncols")
    case True
    let ?st = "st[r := StringArray (ys @ [l])]"
    have 1: "strings_at ?st nc ncols"
      using Cons.prems(1,3) by (simp add: strings_at_update_other)
    have 2: "strings_at ?st r (ys @ [l])"
      using r by simp
    have step: "?body l st = (Inr (), ?st)"
      using True
      by (simp add: bind_s_def run_read_strings[OF Cons.prems(1)] when_s_def
            run_push_string[OF Cons.prems(2)])
    show ?thesis
      unfolding for_each_Cons_run[where body = ?body, OF step] Cons.IH[OF 1 2 Cons.prems(3)]
      using True by simp
  next
    case False
    have step: "?body l st = (Inr (), st)"
      using False
      by (simp add: bind_s_def run_read_strings[OF Cons.prems(1)] when_s_def return_s_def)
    show ?thesis
      unfolding for_each_Cons_run[where body = ?body, OF step] Cons.IH[OF Cons.prems]
      using False by simp
  qed
qed

lemma run_push_unless_included:
  assumes "strings_at st r ys"
  shows "push_unless_included_st r x st =
           (Inr (), st[r := StringArray (push_unless_included x ys)])"
  using assms
  by (simp add: push_unless_included_st_def push_unless_included_def bind_s_def
        run_read_strings[OF assms] when_s_def run_push_string[OF assms] return_s_def
        update_same_strings)

lemma run_when_push_unless_included:
  "when_s c (push_unless_included_st (length st) x) (st @ [StringArray ys]) =
     (Inr (), st @ [StringArray (if c then push_unless_included x ys else ys)])"
proof -
  have "strings_at (st @ [StringArray ys]) (length st) ys"
    by simp
  from run_push_unless_included[OF this] show ?thesis
    by (simp add: when_s_def return_s_def)
qed

lemma run_when_push_unless_included2:
  "when_s c (bind_s (push_unless_included_st (length st) x)
               (\<lambda>_. push_unless_included_st (length st) y)) (st @ [StringArray ys]) =
     (Inr (), st @ [StringArray (if c then push_unless_included y (push_unless_included x ys)
                                 else ys)])"
proof -
  have 1: "strings_at (st @ [StringArray ys]) (length st) ys"
    by simp
  have 2: "strings_at (st @ [StringArray (push_unless_included x ys)]) (length st)
             (push_unless_included x ys)"
    by simp
  show ?thesis
    using run_push_unless_included[OF 1, of x] run_push_unless_included[OF 2, of y]
    by (simp add: when_s_def return_s_def bind_s_def)
qed

lemma run_resolveLatentNodes:
  assumes "candidate_obj st co cand"
  shows "resolveLatentNodes_st co st =
           (Inr (length st), st @ [StringArray (resolveLatentNodes cand)])"
proof -
  let ?st1 = "st @ [StringArray []]"
  have nc: "strings_at ?st1 (co_newColumns co) (newColumns cand)"
    using assms by (simp add: candidate_obj_def strings_at_append)
  have r: "strings_at ?st1 (length st) []"
    by simp
  have ne: "co_newColumns co \<noteq> length st"
    using assms by (auto simp: candidate_obj_def strings_at_def)
  have f: "filter (\<lambda>l. list_ex (matches_latent l) (newColumns cand)) LATENT_NODES =
           filter (resolves cand) LATENT_NODES"
    by (simp add: resolves_def[abs_def])
  have id: "co_id co = cand_id cand"
    using assms by (simp add: candidate_obj_def)
  show ?thesis
    by (simp add: resolveLatentNodes_st_def resolveLatentNodes_def bind_s_def new_obj_def
          run_latent_loop[OF nc r ne] f id run_when_push_unless_included
          run_when_push_unless_included2 return_s_def Let_def
          cong: for_each_weak_cong)
qed

lemma run_titles_loop:
  assumes "strings_at st b ys"
  shows "for_each es (\<lambda>edge. when_s (p edge) (push_string b (title edge))) st =
           (Inr (), st[b := StringArray (ys @ map title (filter p es))])"
  using assms
proof (induction es arbitrary: st ys)
  case Nil
  then show ?case by (simp add: return_s_def update_same_strings)
next
  case (Cons e es)
  let ?body = "\<lambda>edge. when_s (p edge) (push_string b (title edge))"
  have b: "b < length st" using Cons.prems by (simp add: strings_at_def)
  show ?case
  proof (cases "p e")
    case True
    have 1: "strings_at (st[b := StringArray (ys @ [title e])]) b (ys @ [title e])"
      using b by simp
    have step: "?body e st = (Inr (), st[b := StringArray (ys @ [title e])])"
      using True by (simp add: when_s_def run_push_string[OF Cons.prems])
    show ?thesis
      unfolding for_each_Cons_run[where body = ?body, OF step] Cons.IH[OF 1]
      using True by simp
  next
    case False
    have step: "?body e st = (Inr (), st)"
      using False by (simp add: when_s_def return_s_def)
    show ?thesis
      unfolding for_each_Cons_run[where body = ?body, OF step] Cons.IH[OF Cons.prems]
      using False by simp
  qed
qed

lemma run_when_push_titles:
  assumes "edges_at st e es"
  shows "when_s c (push_titles_st p e (length st)) (st @ [StringArray ys]) =
           (Inr (), st @ [StringArray (if c then push_titles p es ys else ys)])"
proof -
  have 1: "edges_at (st @ [StringArray ys]) e es"
    using assms by (rule edges_at_append)
  have 2: "strings_at (st @ [StringArray ys]) (length st) ys"
    by simp
  show ?thesis
    by (simp add: when_s_def return_s_def push_titles_st_def bind_s_def run_read_edges[OF 1]
          run_titles_loop[OF 2] push_titles_def cong: for_each_weak_cong)
qed

lemma run_boostEdges:
  assumes "co_id co = cand_id cand" and "edges_at st e es"
  shows "boostEdges_st co e st = (Inr (length st), st @ [StringArray (boostEdges cand es)])"
  by (simp add: boostEdges_st_def boostEdges_def bind_s_def new_obj_def
        run_when_push_titles[OF assms(2)] assms(1) return_s_def Let_def)

lemma run_read_candidate:
  "a < length st \<Longrightarrow> st ! a = CandObj co \<Longrightarrow> read_candidate a st = (Inr co, st)"
  by (simp add: read_candidate_def read_obj_def bind_s_def return_s_def)

subsection \<open>The store model computes what the functions on values compute\<close>

lemma computeMarginalValue_st_refines:
  assumes c: "candidate_at st c cand" and a: "set_at st a cols" and e: "edges_at st e es"
  shows "fst (computeMarginalValue_st c a e st) =
           map_sum id (\<lambda>s. score_obj s (length st + 1) (length st + 2))
             (computeMarginalValue cand cols es)"
    and "computeMarginalValue cand cols es = Inr s \<Longrightarrow>
           snd (computeMarginalValue_st c a e st) =
             st @ [SetObj (augmented_columns cand cols),
                   StringArray (resolvedLatentNodes s),
                   StringArray (boostedEdgeTitles s)]"
proof -
  let ?n = "length st"
  from c obtain co where co: "c < length st" "st ! c = CandObj co" "candidate_obj st co cand"
    by (auto simp: candidate_at_def)
  from run_augmentColumns[OF co(3) a]
  obtain S where aug: "augmentColumns_st co a st =
           (map_sum id (\<lambda>_. ?n) (augmentColumns cand cols), st @ [SetObj S])"
    and S: "\<And>R. augmentColumns cand cols = Inr R \<Longrightarrow> S = R"
    by blast
  have both: "fst (computeMarginalValue_st c a e st) =
           map_sum id (\<lambda>s. score_obj s (?n + 1) (?n + 2)) (computeMarginalValue cand cols es) \<and>
        (\<forall>s. computeMarginalValue cand cols es = Inr s \<longrightarrow>
           snd (computeMarginalValue_st c a e st) =
             st @ [SetObj (augmented_columns cand cols),
                   StringArray (resolvedLatentNodes s),
                   StringArray (boostedEdgeTitles s)])"
  proof (cases "families_readable cand")
    case False
    then have "augmentColumns cand cols = Inl TypeError"
      by (simp add: augmentColumns_eq)
    then show ?thesis
      using False aug
      by (simp add: computeMarginalValue_st_def computeMarginalValue_throws bind_s_def
            run_read_candidate[OF co(1,2)])
  next
    case True
    let ?R = "augmented_columns cand cols"
    let ?st1 = "st @ [SetObj ?R]"
    let ?st2 = "?st1 @ [StringArray (resolveLatentNodes cand)]"
    let ?s = "assemble_score (cand_id cand)
                (filter (mechanism_testable cols) MECHANISM_CATALOG)
                (filter (mechanism_testable ?R) MECHANISM_CATALOG)
                (resolveLatentNodes cand) (boostEdges cand es)"
    have R: "augmentColumns cand cols = Inr ?R"
      using True by (simp add: augmentColumns_eq)
    have aug': "augmentColumns_st co a st = (Inr ?n, ?st1)"
      using aug S[OF R] by (simp add: R)
    have a1: "set_at ?st1 a cols"
      using a by (rule set_at_append)
    have n1: "set_at ?st1 ?n ?R"
      by simp
    have c1: "candidate_obj ?st1 co cand"
      using co(3) by (rule candidate_obj_append)
    have e2: "edges_at ?st2 e es"
      using e by (simp add: edges_at_def nth_append)
    have id: "co_id co = cand_id cand"
      using co(3) by (simp add: candidate_obj_def)
    let ?r = "Suc (length st)" and ?b = "Suc (Suc (length st))"
    let ?st2' = "st @ [SetObj ?R, StringArray (resolveLatentNodes cand)]"
    let ?st3 = "st @ [SetObj ?R, StringArray (resolveLatentNodes cand),
                      StringArray (boostEdges cand es)]"
    have res: "resolveLatentNodes_st co ?st1 = (Inr ?r, ?st2')"
      using run_resolveLatentNodes[OF c1] by simp
    have rr: "read_strings ?r ?st2' = (Inr (resolveLatentNodes cand), ?st2')"
      by (rule run_read_strings) (simp add: strings_at_def nth_append)
    have boo: "boostEdges_st co e ?st2' = (Inr ?b, ?st3)"
      using run_boostEdges[OF id e2] by simp
    have rb: "read_strings ?b ?st3 = (Inr (boostEdges cand es), ?st3)"
      by (rule run_read_strings) (simp add: strings_at_def nth_append)
    have run: "computeMarginalValue_st c a e st = (Inr (score_obj ?s ?r ?b), ?st3)"
      by (simp add: computeMarginalValue_st_def bind_s_def run_read_candidate[OF co(1,2)] aug'
            run_read_set[OF a1] run_read_set[OF n1] lift_r_def testableMechanisms_eq
            res rr boo rb return_s_def id)
    have pure: "computeMarginalValue cand cols es = Inr ?s"
      by (simp add: computeMarginalValue_def R testableMechanisms_eq)
    have fields: "resolvedLatentNodes ?s = resolveLatentNodes cand"
      "boostedEdgeTitles ?s = boostEdges cand es"
      by (simp_all add: assemble_score_def Let_def)
    show ?thesis
      unfolding run pure using fields by simp
  qed
  from both show "fst (computeMarginalValue_st c a e st) =
           map_sum id (\<lambda>s. score_obj s (length st + 1) (length st + 2))
             (computeMarginalValue cand cols es)"
    by simp
  from both show "computeMarginalValue cand cols es = Inr s \<Longrightarrow>
           snd (computeMarginalValue_st c a e st) =
             st @ [SetObj (augmented_columns cand cols),
                   StringArray (resolvedLatentNodes s),
                   StringArray (boostedEdgeTitles s)]"
    by simp
qed

lemma entries_at_update [simp]:
  "a < length st \<Longrightarrow> entries_at (st[a := TestabilityArray xs]) a ys \<longleftrightarrow> ys = xs"
  by (auto simp: entries_at_def)

lemma entries_at_update_other:
  "entries_at st b xs \<Longrightarrow> a \<noteq> b \<Longrightarrow> entries_at (st[a := v]) b xs"
  by (simp add: entries_at_def)

lemma set_at_update_entries:
  "set_at st b S \<Longrightarrow> set_at (st[a := TestabilityArray xs]) b S \<or> a = b"
  by (auto simp: set_at_def)

lemma run_classify_loop:
  assumes "set_at st a cols" and "entries_at st t ta" and "entries_at st u ua" and "t \<noteq> u"
    and "classify_loop ms cols ta ua = Inr (ta', ua')"
  shows "for_each ms (\<lambda>mech.
           bind_s (read_set a) (\<lambda>cols.
           bind_s (lift_r (hasDoseData (doseFamily mech) cols)) (\<lambda>doseOk.
           bind_s (lift_r (hasResponseData (responseFamily mech) cols)) (\<lambda>responseOk.
             let entry = testability_entry mech doseOk responseOk in
             if testable entry then push_entry t entry else push_entry u entry)))) st =
         (Inr (), st[t := TestabilityArray ta', u := TestabilityArray ua'])"
  using assms
proof (induction ms arbitrary: st ta ua)
  case Nil
  then have "st[t := TestabilityArray ta'] = st" and "st[u := TestabilityArray ua'] = st"
    by (simp_all add: entries_at_def list_update_same_conv)
  then show ?case
    using Nil by (simp add: return_s_def)
next
  case (Cons m ms)
  let ?body = "\<lambda>mech.
           bind_s (read_set a) (\<lambda>cols.
           bind_s (lift_r (hasDoseData (doseFamily mech) cols)) (\<lambda>doseOk.
           bind_s (lift_r (hasResponseData (responseFamily mech) cols)) (\<lambda>responseOk.
             let entry = testability_entry mech doseOk responseOk in
             if testable entry then push_entry t entry else push_entry u entry)))"
  from Cons.prems(5) obtain d r where d: "hasDoseData (doseFamily m) cols = Inr d"
    and r: "hasResponseData (responseFamily m) cols = Inr r"
    by (auto simp: bind_r_eq_Inr)
  let ?e = "testability_entry m d r"
  have at: "a \<noteq> t" and au: "a \<noteq> u"
    using Cons.prems(1,2,3) by (auto simp: set_at_def entries_at_def)
  have tl: "t < length st" and ul: "u < length st"
    using Cons.prems(2,3) by (simp_all add: entries_at_def)
  show ?case
  proof (cases "testable ?e")
    case True
    let ?st = "st[t := TestabilityArray (ta @ [?e])]"
    have step: "?body m st = (Inr (), ?st)"
      using True
      by (simp add: bind_s_def run_read_set[OF Cons.prems(1)] lift_r_def d r Let_def
            run_push_entry[OF Cons.prems(2)])
    have rest: "classify_loop ms cols (ta @ [?e]) ua = Inr (ta', ua')"
      using Cons.prems(5) True by (simp add: d r Let_def)
    have 1: "set_at ?st a cols"
      using Cons.prems(1) at by (simp add: set_at_def)
    have 2: "entries_at ?st t (ta @ [?e])"
      using tl by simp
    have 3: "entries_at ?st u ua"
      using Cons.prems(3,4) by (simp add: entries_at_update_other)
    show ?thesis
      unfolding for_each_Cons_run[where body = ?body, OF step]
        Cons.IH[OF 1 2 3 Cons.prems(4) rest]
      by simp
  next
    case False
    let ?st = "st[u := TestabilityArray (ua @ [?e])]"
    have step: "?body m st = (Inr (), ?st)"
      using False
      by (simp add: bind_s_def run_read_set[OF Cons.prems(1)] lift_r_def d r Let_def
            run_push_entry[OF Cons.prems(3)])
    have rest: "classify_loop ms cols ta (ua @ [?e]) = Inr (ta', ua')"
      using Cons.prems(5) False by (simp add: d r Let_def)
    have 1: "set_at ?st a cols"
      using Cons.prems(1) au by (simp add: set_at_def)
    have 2: "entries_at ?st t ta"
      using Cons.prems(2,4) by (simp add: entries_at_update_other)
    have 3: "entries_at ?st u (ua @ [?e])"
      using ul by simp
    have sw: "?st[t := TestabilityArray ta'] =
              st[t := TestabilityArray ta', u := TestabilityArray (ua @ [?e])]"
      using Cons.prems(4) by (simp add: list_update_swap)
    show ?thesis
      unfolding for_each_Cons_run[where body = ?body, OF step]
        Cons.IH[OF 1 2 3 Cons.prems(4) rest] sw
      by simp
  qed
qed

lemma run_new_obj_bind: "bind_s (new_obj v) f st = f (length st) (st @ [v])"
  by (simp add: bind_s_def new_obj_def)

lemma getCurrentlyTestableEdges_st_refines:
  assumes a: "set_at st a cols" and g: "getCurrentlyTestableEdges cols = Inr (ts, us)"
  shows "getCurrentlyTestableEdges_st a st =
           (Inr (length st, length st + 1),
            st @ [TestabilityArray ts, TestabilityArray us])"
proof -
  let ?st = "st @ [TestabilityArray [], TestabilityArray []]"
  let ?u = "length (st @ [TestabilityArray []])"
  have 1: "set_at ?st a cols"
    using a by (rule set_at_append)
  have 2: "entries_at ?st (length st) []"
    by (simp add: entries_at_def nth_append)
  have 3: "entries_at ?st ?u []"
    by (simp add: entries_at_def nth_append)
  have 4: "length st \<noteq> ?u"
    by simp
  have 5: "classify_loop MECHANISM_CATALOG cols [] [] = Inr (ts, us)"
    using g by (simp add: getCurrentlyTestableEdges_def)
  have upd2: "(st @ [TestabilityArray ts, TestabilityArray []])
                [Suc (length st) := TestabilityArray us] =
              st @ [TestabilityArray ts, TestabilityArray us]"
    using list_update_length[of "st @ [TestabilityArray ts]" "TestabilityArray []" "[]"
        "TestabilityArray us"]
    by simp
  note loop = run_classify_loop[OF 1 2 3 4 5]
  have st2: "(st @ [TestabilityArray []]) @ [TestabilityArray []] = ?st"
    by simp
  show ?thesis
    unfolding getCurrentlyTestableEdges_st_def run_new_obj_bind st2
    by (simp add: bind_s_def loop upd2 return_s_def cong: for_each_weak_cong)
qed

section \<open>Evaluated sample calls\<close>

lemma sample_cgm_readable: "families_readable sample_cgm"
  by code_simp

lemma sample_cgm_score:
  "computeMarginalValue sample_cgm sample_columns sample_edges =
     Inr \<lparr>candidateId = ''cgm'', composite = 45, newEdgesUnlocked = 3, newEdgePoints = 40,
          confoundersResolved = 0, confounderPoints = 0, signalBoostEdges = 1,
          signalBoostPoints = 5, tier = High,
          unlockedMechanisms =
            filter (\<lambda>m. m_id m \<in> {''training_hrs_glucose'', ''training_hrs_insulin'',
                                   ''sleep_dur_glucose''}) MECHANISM_CATALOG,
          resolvedLatentNodes = [],
          boostedEdgeTitles = [''Training Hours -> Glucose'']\<rparr>"
  by code_simp

lemma sample_body_temperature_readable: "families_readable sample_body_temperature"
  by code_simp

lemma sample_body_temperature_score:
  "computeMarginalValue sample_body_temperature sample_columns sample_edges =
     Inr \<lparr>candidateId = ''body_temperature'', composite = 35, newEdgesUnlocked = 0,
          newEdgePoints = 0, confoundersResolved = 2, confounderPoints = 30,
          signalBoostEdges = 1, signalBoostPoints = 5, tier = Moderate,
          unlockedMechanisms = [],
          resolvedLatentNodes = [''leptin'', ''core_temperature''],
          boostedEdgeTitles = [''Sleep Duration -> HRV'']\<rparr>"
  by code_simp

lemma sample_monthly_labs_readable: "families_readable sample_monthly_labs"
  by code_simp

lemma sample_monthly_labs_score:
  "computeMarginalValue sample_monthly_labs sample_columns sample_edges =
     Inr \<lparr>candidateId = ''monthly_labs'', composite = 10, newEdgesUnlocked = 0,
          newEdgePoints = 0, confoundersResolved = 0, confounderPoints = 0,
          signalBoostEdges = 2, signalBoostPoints = 10, tier = Low,
          unlockedMechanisms = [], resolvedLatentNodes = [],
          boostedEdgeTitles = [''Running Volume -> Ferritin'', ''Training Hours -> Glucose'']\<rparr>"
  by code_simp

lemma sample_sleep_diary_readable: "families_readable sample_sleep_diary"
  by code_simp

lemma sample_sleep_diary_score:
  "computeMarginalValue sample_sleep_diary sample_columns sample_edges =
     Inr \<lparr>candidateId = ''sleep_diary'', composite = 0, newEdgesUnlocked = 0,
          newEdgePoints = 0, confoundersResolved = 0, confounderPoints = 0,
          signalBoostEdges = 0, signalBoostPoints = 0, tier = Low,
          unlockedMechanisms = [], resolvedLatentNodes = [], boostedEdgeTitles = []\<rparr>"
  by code_simp

lemma sample_columns_testable:
  "map m_id (filter (mechanism_testable sample_columns) MECHANISM_CATALOG) = [''sleep_dur_hrv'']"
  by code_simp

lemma sample_cgm_augmented:
  "augmented_columns sample_cgm sample_columns =
     sample_columns \<union> {''glucose_cgm_mean'', ''glucose_smoothed'', ''glucose_raw'',
                        ''insulin_smoothed'', ''insulin_raw''}"
  by code_simp

lemma sample_sleep_dur_hrv:
  "isTestable (MECHANISM_CATALOG ! 15) sample_columns = Inr True \<and>
   m_id (MECHANISM_CATALOG ! 15) = ''sleep_dur_hrv''"
  by code_simp

lemma sample_sources_readable: "\<forall>cand \<in> set sample_sources. families_readable cand"
  by (simp add: sample_sources_def sample_cgm_readable sample_monthly_labs_readable
        sample_sleep_diary_readable sample_body_temperature_readable)

lemma sample_ids:
  "cand_id sample_cgm = ''cgm''" "cand_id sample_body_temperature = ''body_temperature''"
  "cand_id sample_monthly_labs = ''monthly_labs''" "cand_id sample_sleep_diary = ''sleep_diary''"
  by (simp_all add: sample_cgm_def sample_body_temperature_def sample_monthly_labs_def
        sample_sleep_diary_def sample_candidate_def)

lemma sample_ranking:
  "map_sum id (map (\<lambda>r. (cand_id (candidate r), composite (score r))))
     (rankCandidates sample_sources sample_columns sample_edges) =
   Inr [(''cgm'', 45), (''body_temperature'', 35), (''monthly_labs'', 10), (''sleep_diary'', 0)]"
  by (simp add: rankCandidates_def sample_sources_def sample_cgm_score sample_monthly_labs_score
        sample_sleep_diary_score sample_body_temperature_score sample_ids)

lemma sample_store_length: "length sample_store = 6"
  by (simp add: sample_store_def)

lemma sample_store_inputs:
  "candidate_at sample_store 4 sample_cgm"
  "set_at sample_store 0 sample_columns"
  "edges_at sample_store 5 sample_edges"
  by (simp_all add: candidate_at_def candidate_obj_def set_at_def edges_at_def strings_at_def
        sample_store_def)

lemma sample_store_call:
  "computeMarginalValue_st 4 0 5 sample_store =
     (Inr \<lparr>so_candidateId = ''cgm'', so_composite = 45, so_newEdgesUnlocked = 3,
            so_newEdgePoints = 40, so_confoundersResolved = 0, so_confounderPoints = 0,
            so_signalBoostEdges = 1, so_signalBoostPoints = 5, so_tier = High,
            so_unlockedMechanisms =
              filter (\<lambda>m. m_id m \<in> {''training_hrs_glucose'', ''training_hrs_insulin'',
                                     ''sleep_dur_glucose''}) MECHANISM_CATALOG,
            so_resolvedLatentNodes = 7, so_boostedEdgeTitles = 8\<rparr>,
      sample_store @
        [SetObj (sample_columns \<union> {''glucose_cgm_mean'', ''glucose_smoothed'', ''glucose_raw'',
                                    ''insulin_smoothed'', ''insulin_raw''}),
         StringArray [],
         StringArray [''Training Hours -> Glucose'']])"
proof -
  note r = computeMarginalValue_st_refines[OF sample_store_inputs]
  have "fst (computeMarginalValue_st 4 0 5 sample_store) =
          Inr \<lparr>so_candidateId = ''cgm'', so_composite = 45, so_newEdgesUnlocked = 3,
            so_newEdgePoints = 40, so_confoundersResolved = 0, so_confounderPoints = 0,
            so_signalBoostEdges = 1, so_signalBoostPoints = 5, so_tier = High,
            so_unlockedMechanisms =
              filter (\<lambda>m. m_id m \<in> {''training_hrs_glucose'', ''training_hrs_insulin'',
                                     ''sleep_dur_glucose''}) MECHANISM_CATALOG,
            so_resolvedLatentNodes = 7, so_boostedEdgeTitles = 8\<rparr>"
    unfolding r(1) sample_cgm_score by (simp add: score_obj_def sample_store_length)
  moreover have "snd (computeMarginalValue_st 4 0 5 sample_store) =
      sample_store @
        [SetObj (sample_columns \<union> {''glucose_cgm_mean'', ''glucose_smoothed'', ''glucose_raw'',
                                    ''insulin_smoothed'', ''insulin_raw''}),
         StringArray [],
         StringArray [''Training Hours -> Glucose'']]"
    unfolding r(2)[OF sample_cgm_score] sample_cgm_augmented by simp
  ultimately show ?thesis
    by (simp add: prod_eq_iff)
qed

lemma sample_store_classify:
  "fst (getCurrentlyTestableEdges_st 0 sample_store) = Inr (6, 7)"
  using getCurrentlyTestableEdges_st_refines[OF sample_store_inputs(2)
          getCurrentlyTestableEdges_eq]
  by (simp add: sample_store_length)

lemma sample_store_augment:
  "augmentColumns_st \<lparr>co_id = ''cgm'', co_newDoseFamilies = 1, co_newResponseFamilies = 2,
                       co_newColumns = 3\<rparr> 0 sample_store =
     (Inr 6,
      sample_store @
        [SetObj (sample_columns \<union> {''glucose_cgm_mean'', ''glucose_smoothed'', ''glucose_raw'',
                                    ''insulin_smoothed'', ''insulin_raw''})])"
  by code_simp

section \<open>Testability classification\<close>

text \<open>
  Claim C2. For every set of available columns \<^verbatim>\<open>getCurrentlyTestableEdges\<close> returns
  two lists: the testable list holds, in catalog order, the entries of exactly the
  mechanisms whose dose family and whose response family each have a column in the
  set, the untestable list those of all other mechanisms; the flag of every entry
  agrees with its list, and every mechanism of the catalog has exactly one entry in
  the two lists together.
\<close>

theorem testability_classification:
  "\<exists>ts us. getCurrentlyTestableEdges availableColumns = Inr (ts, us) \<and>
     map mechanism ts = filter (mechanism_testable availableColumns) MECHANISM_CATALOG \<and>
     map mechanism us = filter (\<lambda>m. \<not> mechanism_testable availableColumns m) MECHANISM_CATALOG \<and>
     (\<forall>e \<in> set ts. testable e) \<and> (\<forall>e \<in> set us. \<not> testable e) \<and>
     mset (map mechanism ts) + mset (map mechanism us) = mset MECHANISM_CATALOG \<and>
     distinct (map mechanism ts @ map mechanism us)"
proof -
  let ?T = "mechanism_testable availableColumns"
  let ?ts = "map (catalog_entry availableColumns) (filter ?T MECHANISM_CATALOG)"
  let ?us = "map (catalog_entry availableColumns) (filter (\<lambda>m. \<not> ?T m) MECHANISM_CATALOG)"
  have g: "getCurrentlyTestableEdges availableColumns = Inr (?ts, ?us)"
    by (rule getCurrentlyTestableEdges_eq)
  have mt: "map mechanism ?ts = filter ?T MECHANISM_CATALOG"
    by (simp add: comp_def)
  have mu: "map mechanism ?us = filter (\<lambda>m. \<not> ?T m) MECHANISM_CATALOG"
    by (simp add: comp_def)
  have ft: "\<forall>e \<in> set ?ts. testable e"
    by auto
  have fu: "\<forall>e \<in> set ?us. \<not> testable e"
    by auto
  have ms: "mset (map mechanism ?ts) + mset (map mechanism ?us) = mset MECHANISM_CATALOG"
    unfolding mt mu by (rule mset_filter_partition)
  have di: "distinct (map mechanism ?ts @ map mechanism ?us)"
    unfolding mt mu using catalog_distinct by auto
  show ?thesis
    using g mt mu ft fu ms di by blast
qed

theorem testability_classification_witness:
  "\<exists>ts us. getCurrentlyTestableEdges sample_columns = Inr (ts, us) \<and>
     map (\<lambda>e. m_id (mechanism e)) ts = [''sleep_dur_hrv''] \<and>
     (\<forall>e \<in> set ts. testable e) \<and> (\<forall>e \<in> set us. \<not> testable e) \<and>
     length ts = 1 \<and> length us = 64"
proof -
  from testability_classification[of sample_columns]
  obtain ts us where g: "getCurrentlyTestableEdges sample_columns = Inr (ts, us)"
    and mt: "map mechanism ts = filter (mechanism_testable sample_columns) MECHANISM_CATALOG"
    and f: "\<forall>e \<in> set ts. testable e" "\<forall>e \<in> set us. \<not> testable e"
    and ms: "mset (map mechanism ts) + mset (map mechanism us) = mset MECHANISM_CATALOG"
    by blast
  have "map m_id (map mechanism ts) = [''sleep_dur_hrv'']"
    unfolding mt by (rule sample_columns_testable)
  then have ids: "map (\<lambda>e. m_id (mechanism e)) ts = [''sleep_dur_hrv'']"
    by (simp add: comp_def)
  then have lt: "length ts = 1"
    by (metis length_map length_Cons list.size(3) One_nat_def)
  have "size (mset (map mechanism ts) + mset (map mechanism us)) = 65"
    unfolding ms by (simp add: catalog_length)
  then have lu: "length us = 64"
    using lt by simp
  show ?thesis
    using g ids f lt lu by auto
qed

section \<open>Composite score and tier\<close>

text \<open>
  A call of \<^verbatim>\<open>computeMarginalValue\<close> returns a score exactly when the candidate's
  family ids are readable (\<open>computeMarginalValue_returns\<close>,
  \<open>computeMarginalValue_throws\<close>); the theorems on returned scores are stated for those
  calls.

  Claim C1. The composite score returned by \<^verbatim>\<open>computeMarginalValue\<close> is
  \<open>min 100 (newEdgePoints + confounderPoints + signalBoostPoints)\<close>, where the three
  point values are \<open>min 40 (15 * newEdgesUnlocked)\<close>,
  \<open>min 30 (15 * confoundersResolved)\<close> and \<open>min 30 (5 * signalBoostEdges)\<close>; hence the
  composite score lies between 0 and 100 inclusive.
\<close>

theorem composite_score_formula:
  assumes "families_readable cand"
  shows "\<exists>s. computeMarginalValue cand availableColumns edgeResults = Inr s \<and>
           composite s = min 100 (newEdgePoints s + confounderPoints s + signalBoostPoints s) \<and>
           newEdgePoints s = min 40 (15 * newEdgesUnlocked s) \<and>
           confounderPoints s = min 30 (15 * confoundersResolved s) \<and>
           signalBoostPoints s = min 30 (5 * signalBoostEdges s) \<and>
           0 \<le> composite s \<and> composite s \<le> 100"
proof -
  obtain s where s: "computeMarginalValue cand availableColumns edgeResults = Inr s"
    using computeMarginalValue_returns[OF assms] by blast
  note f = computeMarginalValue_Inr[OF s]
  have nn: "0 \<le> newEdgesUnlocked s" "0 \<le> confoundersResolved s" "0 \<le> signalBoostEdges s"
    by (simp_all add: f(3,6,9))
  have "0 \<le> composite s \<and> composite s \<le> 100"
    using nn by (simp add: f(11) f(4) f(7) f(10))
  then show ?thesis
    using s f(11) f(4) f(7) f(10) by (simp add: mult.commute)
qed

theorem composite_score_formula_witness:
  "families_readable sample_cgm \<and>
   (\<exists>s. computeMarginalValue sample_cgm sample_columns sample_edges = Inr s \<and>
        composite s = 45 \<and> newEdgePoints s = 40 \<and> confounderPoints s = 0 \<and>
        signalBoostPoints s = 5 \<and>
        composite s = min 100 (newEdgePoints s + confounderPoints s + signalBoostPoints s))"
  using composite_score_formula[OF sample_cgm_readable, of sample_columns sample_edges]
        sample_cgm_readable sample_cgm_score
  by auto

text \<open>
  Claim C8. The tier of a returned score depends on the composite score alone:
  transformative exactly from 70 up, high exactly from 45 to below 70, moderate exactly
  from 20 to below 45, and low exactly below 20.
\<close>

theorem tier_from_composite:
  assumes "families_readable cand"
  shows "\<exists>s. computeMarginalValue cand availableColumns edgeResults = Inr s \<and>
           (tier s = Transformative \<longleftrightarrow> composite s \<ge> 70) \<and>
           (tier s = High \<longleftrightarrow> 45 \<le> composite s \<and> composite s < 70) \<and>
           (tier s = Moderate \<longleftrightarrow> 20 \<le> composite s \<and> composite s < 45) \<and>
           (tier s = Low \<longleftrightarrow> composite s < 20)"
proof -
  obtain s where s: "computeMarginalValue cand availableColumns edgeResults = Inr s"
    using computeMarginalValue_returns[OF assms] by blast
  have "tier s = tier_of (composite s)"
    by (rule computeMarginalValue_Inr(12)[OF s])
  then show ?thesis
    using s by (auto simp: tier_of_def)
qed

theorem tier_from_composite_witness:
  "families_readable sample_cgm \<and>
   (\<exists>s. computeMarginalValue sample_cgm sample_columns sample_edges = Inr s \<and>
        composite s = 45 \<and> tier s = High \<and>
        (tier s = High \<longleftrightarrow> 45 \<le> composite s \<and> composite s < 70))"
  using tier_from_composite[OF sample_cgm_readable, of sample_columns sample_edges]
        sample_cgm_readable sample_cgm_score
  by auto

section \<open>Newly unlocked mechanisms\<close>

text \<open>
  Claim C3. \<^verbatim>\<open>newEdgesUnlocked\<close> of a returned score is the number of catalog
  mechanisms that are testable under the augmented column set and not testable under
  the available columns, where the augmented set is the union of the available
  columns, the candidate's new columns and the columns of every family listed in
  \<^verbatim>\<open>newDoseFamilies\<close> or \<^verbatim>\<open>newResponseFamilies\<close> that is an entry of the catalog.
\<close>

theorem new_edges_unlocked_count:
  assumes "families_readable cand"
  shows "\<exists>s. computeMarginalValue cand availableColumns edgeResults = Inr s \<and>
           augmentColumns cand availableColumns = Inr (augmented_columns cand availableColumns) \<and>
           unlockedMechanisms s =
             filter (\<lambda>m. mechanism_testable (augmented_columns cand availableColumns) m \<and>
                         \<not> mechanism_testable availableColumns m) MECHANISM_CATALOG \<and>
           newEdgesUnlocked s =
             int (card {m \<in> set MECHANISM_CATALOG.
                          mechanism_testable (augmented_columns cand availableColumns) m \<and>
                          \<not> mechanism_testable availableColumns m})"
proof -
  obtain s where s: "computeMarginalValue cand availableColumns edgeResults = Inr s"
    using computeMarginalValue_returns[OF assms] by blast
  have a: "augmentColumns cand availableColumns = Inr (augmented_columns cand availableColumns)"
    using assms by (simp add: augmentColumns_eq)
  have u: "unlockedMechanisms s =
             filter (\<lambda>m. mechanism_testable (augmented_columns cand availableColumns) m \<and>
                         \<not> mechanism_testable availableColumns m) MECHANISM_CATALOG"
    unfolding computeMarginalValue_Inr(2)[OF s] by (rule newly_unlocked_eq)
  have n: "newEdgesUnlocked s =
             int (card {m \<in> set MECHANISM_CATALOG.
                          mechanism_testable (augmented_columns cand availableColumns) m \<and>
                          \<not> mechanism_testable availableColumns m})"
    unfolding computeMarginalValue_Inr(3)[OF s] u length_filter_catalog ..
  show ?thesis
    using s a u n by blast
qed

theorem new_edges_unlocked_count_witness:
  "families_readable sample_cgm \<and>
   (\<exists>s. computeMarginalValue sample_cgm sample_columns sample_edges = Inr s \<and>
        newEdgesUnlocked s = 3 \<and>
        card {m \<in> set MECHANISM_CATALOG.
                mechanism_testable (augmented_columns sample_cgm sample_columns) m \<and>
                \<not> mechanism_testable sample_columns m} = 3 \<and>
        map m_id (unlockedMechanisms s) =
          [''training_hrs_glucose'', ''training_hrs_insulin'', ''sleep_dur_glucose''])"
proof -
  have ids: "map m_id (filter (\<lambda>m. m_id m \<in> {''training_hrs_glucose'', ''training_hrs_insulin'',
                                   ''sleep_dur_glucose''}) MECHANISM_CATALOG) =
              [''training_hrs_glucose'', ''training_hrs_insulin'', ''sleep_dur_glucose'']"
    by code_simp
  from new_edges_unlocked_count[OF sample_cgm_readable, of sample_columns sample_edges]
  obtain s where s: "computeMarginalValue sample_cgm sample_columns sample_edges = Inr s"
    and n: "newEdgesUnlocked s =
             int (card {m \<in> set MECHANISM_CATALOG.
                          mechanism_testable (augmented_columns sample_cgm sample_columns) m \<and>
                          \<not> mechanism_testable sample_columns m})"
    by blast
  have v: "newEdgesUnlocked s = 3"
    using s sample_cgm_score by auto
  have u: "map m_id (unlockedMechanisms s) =
          [''training_hrs_glucose'', ''training_hrs_insulin'', ''sleep_dur_glucose'']"
    using s sample_cgm_score ids by auto
  have c: "card {m \<in> set MECHANISM_CATALOG.
                mechanism_testable (augmented_columns sample_cgm sample_columns) m \<and>
                \<not> mechanism_testable sample_columns m} = 3"
    using n v by simp
  show ?thesis
    using sample_cgm_readable s v c u by auto
qed

text \<open>
  Claim C9. Testability is monotone in the column set: a mechanism testable under a
  set is testable under every superset. Hence in \<^verbatim>\<open>computeMarginalValue\<close> the
  mechanisms testable under the available columns are among those testable under the
  augmented columns, and \<^verbatim>\<open>newEdgesUnlocked\<close> is never negative.
\<close>

theorem testability_monotone:
  "(A \<subseteq> B \<longrightarrow> (\<forall>m. isTestable m A = Inr True \<longrightarrow> isTestable m B = Inr True)) \<and>
   (families_readable cand \<longrightarrow>
      (\<exists>s cur aug. computeMarginalValue cand availableColumns edgeResults = Inr s \<and>
          testableMechanisms availableColumns = Inr cur \<and>
          testableMechanisms (augmented_columns cand availableColumns) = Inr aug \<and>
          set cur \<subseteq> set aug \<and> 0 \<le> newEdgesUnlocked s))"
proof (intro conjI impI allI)
  fix m
  assume "A \<subseteq> B" and "isTestable m A = Inr True"
  then show "isTestable m B = Inr True"
    by (simp add: isTestable_True_iff mechanism_testable_mono)
next
  assume r: "families_readable cand"
  obtain s where s: "computeMarginalValue cand availableColumns edgeResults = Inr s"
    using computeMarginalValue_returns[OF r] by blast
  have n: "0 \<le> newEdgesUnlocked s"
    by (simp add: computeMarginalValue_Inr(3)[OF s])
  have sub: "set (filter (mechanism_testable availableColumns) MECHANISM_CATALOG) \<subseteq>
             set (filter (mechanism_testable (augmented_columns cand availableColumns))
                    MECHANISM_CATALOG)"
    using mechanism_testable_mono[OF augmented_columns_superset] by auto
  show "\<exists>s cur aug. computeMarginalValue cand availableColumns edgeResults = Inr s \<and>
          testableMechanisms availableColumns = Inr cur \<and>
          testableMechanisms (augmented_columns cand availableColumns) = Inr aug \<and>
          set cur \<subseteq> set aug \<and> 0 \<le> newEdgesUnlocked s"
    using s n sub testableMechanisms_eq by blast
qed

theorem testability_monotone_witness:
  "sample_columns \<subseteq> augmented_columns sample_cgm sample_columns \<and>
   isTestable (MECHANISM_CATALOG ! 15) sample_columns = Inr True \<and>
   isTestable (MECHANISM_CATALOG ! 15) (augmented_columns sample_cgm sample_columns) = Inr True \<and>
   families_readable sample_cgm \<and>
   (\<exists>s cur aug. computeMarginalValue sample_cgm sample_columns sample_edges = Inr s \<and>
       testableMechanisms sample_columns = Inr cur \<and>
       testableMechanisms (augmented_columns sample_cgm sample_columns) = Inr aug \<and>
       set cur \<subseteq> set aug \<and> 0 \<le> newEdgesUnlocked s \<and> newEdgesUnlocked s = 3)"
proof -
  have sub: "sample_columns \<subseteq> augmented_columns sample_cgm sample_columns"
    by (rule augmented_columns_superset)
  have t: "isTestable (MECHANISM_CATALOG ! 15) sample_columns = Inr True"
    using sample_sleep_dur_hrv by simp
  note w = testability_monotone[of sample_columns "augmented_columns sample_cgm sample_columns"
      sample_cgm sample_columns sample_edges]
  have t': "isTestable (MECHANISM_CATALOG ! 15) (augmented_columns sample_cgm sample_columns) = Inr True"
    using w sub t by blast
  have "\<exists>s cur aug. computeMarginalValue sample_cgm sample_columns sample_edges = Inr s \<and>
       testableMechanisms sample_columns = Inr cur \<and>
       testableMechanisms (augmented_columns sample_cgm sample_columns) = Inr aug \<and>
       set cur \<subseteq> set aug \<and> 0 \<le> newEdgesUnlocked s"
    using w sample_cgm_readable by blast
  then have "\<exists>s cur aug. computeMarginalValue sample_cgm sample_columns sample_edges = Inr s \<and>
       testableMechanisms sample_columns = Inr cur \<and>
       testableMechanisms (augmented_columns sample_cgm sample_columns) = Inr aug \<and>
       set cur \<subseteq> set aug \<and> 0 \<le> newEdgesUnlocked s \<and> newEdgesUnlocked s = 3"
    using sample_cgm_score by auto
  then show ?thesis
    using sub t t' sample_cgm_readable by blast
qed

section \<open>Confounder resolution and signal boost\<close>

text \<open>
  Claim C5. The list \<^verbatim>\<open>resolvedLatentNodes\<close> of a returned score contains a name
  exactly when the name is a latent node that some new column of the candidate
  matches under the substring heuristic, or the special case for the candidate's id
  adds it (\<^verbatim>\<open>body_temperature\<close>: \<^verbatim>\<open>core_temperature\<close>; \<^verbatim>\<open>mood_stress\<close>:
  \<^verbatim>\<open>energy_expenditure\<close>; \<^verbatim>\<open>genetic_data\<close>: \<^verbatim>\<open>insulin_sensitivity\<close> and
  \<^verbatim>\<open>lipoprotein_lipase\<close>). No name occurs twice, and \<^verbatim>\<open>confoundersResolved\<close> is the
  length of the list.
\<close>

theorem resolved_latent_nodes:
  assumes "families_readable cand"
  shows "\<exists>s. computeMarginalValue cand availableColumns edgeResults = Inr s \<and>
           (\<forall>x. x \<in> set (resolvedLatentNodes s) \<longleftrightarrow>
                  (x \<in> set LATENT_NODES \<and> heuristic_match cand x) \<or>
                  special_case (cand_id cand) x) \<and>
           distinct (resolvedLatentNodes s) \<and>
           confoundersResolved s = int (length (resolvedLatentNodes s))"
proof -
  obtain s where s: "computeMarginalValue cand availableColumns edgeResults = Inr s"
    using computeMarginalValue_returns[OF assms] by blast
  have r: "resolvedLatentNodes s = resolveLatentNodes cand"
    by (rule computeMarginalValue_Inr(5)[OF s])
  have n: "confoundersResolved s = int (length (resolvedLatentNodes s))"
    by (rule computeMarginalValue_Inr(6)[OF s])
  show ?thesis
    using s n by (auto simp: r set_resolveLatentNodes distinct_resolveLatentNodes)
qed

theorem resolved_latent_nodes_witness:
  "families_readable sample_body_temperature \<and>
   (\<exists>s. computeMarginalValue sample_body_temperature sample_columns sample_edges = Inr s \<and>
        resolvedLatentNodes s = [''leptin'', ''core_temperature''] \<and>
        confoundersResolved s = 2 \<and>
        ''leptin'' \<in> set LATENT_NODES \<and>
        heuristic_match sample_body_temperature ''leptin'' \<and>
        \<not> heuristic_match sample_body_temperature ''core_temperature'' \<and>
        special_case (cand_id sample_body_temperature) ''core_temperature'')"
proof -
  have l: "''leptin'' \<in> set LATENT_NODES"
    by code_simp
  have sp: "special_case (cand_id sample_body_temperature) ''core_temperature''"
    by code_simp
  have nsp: "\<not> special_case (cand_id sample_body_temperature) ''leptin''"
    by code_simp
  have nh: "\<not> heuristic_match sample_body_temperature ''core_temperature''"
    by code_simp
  from resolved_latent_nodes[OF sample_body_temperature_readable, of sample_columns sample_edges]
  obtain s where s: "computeMarginalValue sample_body_temperature sample_columns sample_edges = Inr s"
    and m: "\<And>x. x \<in> set (resolvedLatentNodes s) \<longleftrightarrow>
                  (x \<in> set LATENT_NODES \<and> heuristic_match sample_body_temperature x) \<or>
                  special_case (cand_id sample_body_temperature) x"
    by blast
  have v: "resolvedLatentNodes s = [''leptin'', ''core_temperature'']" "confoundersResolved s = 2"
    using s sample_body_temperature_score by auto
  have "heuristic_match sample_body_temperature ''leptin''"
    using m[of "''leptin''"] v nsp by simp
  then show ?thesis
    using sample_body_temperature_readable s v l sp nh by blast
qed

text \<open>
  Claim C6. For a candidate whose id is none of \<^verbatim>\<open>monthly_labs\<close>, \<^verbatim>\<open>dedicated_hrv\<close>,
  \<^verbatim>\<open>cgm\<close>, \<^verbatim>\<open>nutrition\<close>, \<^verbatim>\<open>blood_pressure\<close>, \<^verbatim>\<open>mood_stress\<close>,
  \<^verbatim>\<open>respiratory_rate\<close> and \<^verbatim>\<open>body_temperature\<close>, the returned score has no boosted
  edge titles, \<^verbatim>\<open>signalBoostEdges = 0\<close> and \<^verbatim>\<open>signalBoostPoints = 0\<close>, whatever the
  edge results are; for the candidate \<^verbatim>\<open>monthly_labs\<close> the boosted edges are exactly
  the edge results with \<^verbatim>\<open>eff_n < 20\<close>.
\<close>

theorem signal_boost_rules:
  assumes "families_readable cand"
  shows "\<exists>s. computeMarginalValue cand availableColumns edgeResults = Inr s \<and>
           (cand_id cand \<notin> set boost_rule_ids \<longrightarrow>
              boostedEdgeTitles s = [] \<and> signalBoostEdges s = 0 \<and> signalBoostPoints s = 0) \<and>
           (cand_id cand = ''monthly_labs'' \<longrightarrow>
              boostedEdgeTitles s = map title (filter (\<lambda>edge. eff_n edge < 20) edgeResults))"
proof -
  obtain s where s: "computeMarginalValue cand availableColumns edgeResults = Inr s"
    using computeMarginalValue_returns[OF assms] by blast
  note f = computeMarginalValue_Inr(8,9,10)[OF s]
  show ?thesis
    using s by (auto simp: f boostEdges_no_rule boostEdges_monthly_labs)
qed

theorem signal_boost_rules_witness:
  "families_readable sample_sleep_diary \<and> cand_id sample_sleep_diary \<notin> set boost_rule_ids \<and>
   (\<exists>s. computeMarginalValue sample_sleep_diary sample_columns sample_edges = Inr s \<and>
        boostedEdgeTitles s = [] \<and> signalBoostEdges s = 0 \<and> signalBoostPoints s = 0) \<and>
   families_readable sample_monthly_labs \<and> cand_id sample_monthly_labs = ''monthly_labs'' \<and>
   (\<exists>s. computeMarginalValue sample_monthly_labs sample_columns sample_edges = Inr s \<and>
        boostedEdgeTitles s = map title (filter (\<lambda>edge. eff_n edge < 20) sample_edges) \<and>
        boostedEdgeTitles s = [''Running Volume -> Ferritin'', ''Training Hours -> Glucose''])"
proof -
  have a: "cand_id sample_sleep_diary \<notin> set boost_rule_ids"
    by code_simp
  have b: "cand_id sample_monthly_labs = ''monthly_labs''"
    by code_simp
  show ?thesis
    using signal_boost_rules[OF sample_sleep_diary_readable, of sample_columns sample_edges]
          signal_boost_rules[OF sample_monthly_labs_readable, of sample_columns sample_edges]
          a b sample_sleep_diary_readable sample_monthly_labs_readable
          sample_sleep_diary_score sample_monthly_labs_score
    by auto
qed

section \<open>Ranking of the candidates\<close>

text \<open>
  Claim C4. \<^verbatim>\<open>rankCandidates\<close> returns exactly one entry for each element of
  \<^verbatim>\<open>CANDIDATE_DATA_SOURCES\<close>, each paired with the score that
  \<^verbatim>\<open>computeMarginalValue\<close> returns for it, in non-increasing order of composite
  score. The candidate array is a parameter; the call returns when every candidate's
  family ids are readable.
\<close>

theorem rankCandidates_sorted:
  assumes "\<forall>cand \<in> set CANDIDATE_DATA_SOURCES. families_readable cand"
  shows "\<exists>rs. rankCandidates CANDIDATE_DATA_SOURCES availableColumns edgeResults = Inr rs \<and>
           mset (map candidate rs) = mset CANDIDATE_DATA_SOURCES \<and>
           length rs = length CANDIDATE_DATA_SOURCES \<and>
           (\<forall>r \<in> set rs.
              computeMarginalValue (candidate r) availableColumns edgeResults = Inr (score r)) \<and>
           sorted_wrt (\<lambda>a b. composite (score a) \<ge> composite (score b)) rs"
proof -
  have "\<forall>cand \<in> set CANDIDATE_DATA_SOURCES. \<exists>r. scored availableColumns edgeResults cand r"
  proof
    fix cand
    assume "cand \<in> set CANDIDATE_DATA_SOURCES"
    then have "families_readable cand"
      using assms by simp
    then obtain s where "computeMarginalValue cand availableColumns edgeResults = Inr s"
      using computeMarginalValue_returns by blast
    then have "scored availableColumns edgeResults cand \<lparr>candidate = cand, score = s\<rparr>"
      by (simp add: scored_def)
    then show "\<exists>r. scored availableColumns edgeResults cand r" ..
  qed
  then obtain results
    where res: "list_all2 (scored availableColumns edgeResults) CANDIDATE_DATA_SOURCES results"
    using list_all2_exists by blast
  let ?rs = "sort_key (\<lambda>r. - composite (score r)) results"
  have r: "rankCandidates CANDIDATE_DATA_SOURCES availableColumns edgeResults = Inr ?rs"
    using res by (auto simp: rankCandidates_Inr_iff)
  have "mset (map candidate ?rs) = mset (map candidate results)"
    by simp
  then have m: "mset (map candidate ?rs) = mset CANDIDATE_DATA_SOURCES"
    by (simp add: list_all2_scored_map[OF res])
  have l: "length ?rs = length CANDIDATE_DATA_SOURCES"
    using list_all2_lengthD[OF res] by simp
  have p: "\<forall>r \<in> set ?rs.
             computeMarginalValue (candidate r) availableColumns edgeResults = Inr (score r)"
    using list_all2_scored_set[OF res] by simp
  have "sorted (map (\<lambda>r. - composite (score r)) ?rs)"
    by (rule sorted_sort_key)
  then have so: "sorted_wrt (\<lambda>a b. composite (score a) \<ge> composite (score b)) ?rs"
    by (simp add: sorted_map)
  show ?thesis
    using r m l p so by blast
qed

theorem rankCandidates_sorted_witness:
  "list_all families_readable sample_sources \<and>
   (\<exists>rs. rankCandidates sample_sources sample_columns sample_edges = Inr rs \<and>
      map (\<lambda>r. (cand_id (candidate r), composite (score r))) rs =
        [(''cgm'', 45), (''body_temperature'', 35), (''monthly_labs'', 10), (''sleep_diary'', 0)] \<and>
      mset (map candidate rs) = mset sample_sources \<and>
      sorted_wrt (\<lambda>a b. composite (score a) \<ge> composite (score b)) rs)"
  using rankCandidates_sorted[OF sample_sources_readable, of sample_columns sample_edges]
        sample_sources_readable sample_ranking
  by (auto simp: list_all_iff)

section \<open>Effects on the arguments\<close>

text \<open>
  Claim C7. \<^verbatim>\<open>computeMarginalValue\<close> and \<^verbatim>\<open>getCurrentlyTestableEdges\<close> have no side
  effect on their arguments: every object that exists before a call (the set of
  available columns, the candidate and its arrays, the edge results among them) is
  the same after it, whether the call returns or throws; and the set that the
  simulation adds columns to is a new object, not one that existed before.
\<close>

theorem inputs_unmodified:
  "(\<forall>a < length st.
      snd (computeMarginalValue_st candidate_ref availableColumns edgeResults st) ! a = st ! a) \<and>
   (\<forall>a < length st. snd (getCurrentlyTestableEdges_st availableColumns st) ! a = st ! a) \<and>
   (\<forall>copy st'. augmentColumns_st cand availableColumns st = (Inr copy, st') \<longrightarrow>
      length st \<le> copy)"
proof (intro conjI allI impI)
  fix a
  assume a: "a < length st"
  show "snd (computeMarginalValue_st candidate_ref availableColumns edgeResults st) ! a = st ! a"
    by (rule preserves_unchanged(1)[OF preserves_computeMarginalValue a])
  show "snd (getCurrentlyTestableEdges_st availableColumns st) ! a = st ! a"
    by (rule preserves_unchanged(1)[OF preserves_getCurrentlyTestableEdges a])
next
  fix copy st'
  assume "augmentColumns_st cand availableColumns st = (Inr copy, st')"
  then show "length st \<le> copy"
    using preservesD(3)[OF preserves_augmentColumns order_refl] by blast
qed

theorem inputs_unmodified_witness:
  "length sample_store = 6 \<and>
   sample_store ! 0 = SetObj sample_columns \<and>
   snd (computeMarginalValue_st 4 0 5 sample_store) ! 0 = SetObj sample_columns \<and>
   snd (computeMarginalValue_st 4 0 5 sample_store) ! 4 = sample_store ! 4 \<and>
   snd (computeMarginalValue_st 4 0 5 sample_store) ! 5 = EdgeArray sample_edges \<and>
   snd (computeMarginalValue_st 4 0 5 sample_store) ! 6 =
     SetObj (sample_columns \<union> {''glucose_cgm_mean'', ''glucose_smoothed'', ''glucose_raw'',
                                 ''insulin_smoothed'', ''insulin_raw''}) \<and>
   fst (getCurrentlyTestableEdges_st 0 sample_store) = Inr (6, 7) \<and>
   snd (getCurrentlyTestableEdges_st 0 sample_store) ! 0 = SetObj sample_columns \<and>
   fst (augmentColumns_st \<lparr>co_id = ''cgm'', co_newDoseFamilies = 1, co_newResponseFamilies = 2,
                            co_newColumns = 3\<rparr> 0 sample_store) = Inr 6"
proof -
  note w = inputs_unmodified[of sample_store 4 0 5
      "\<lparr>co_id = ''cgm'', co_newDoseFamilies = 1, co_newResponseFamilies = 2,
        co_newColumns = 3\<rparr>"]
  have s0: "sample_store ! 0 = SetObj sample_columns"
    and s5: "sample_store ! 5 = EdgeArray sample_edges"
    by (simp_all add: sample_store_def)
  have c0: "snd (computeMarginalValue_st 4 0 5 sample_store) ! 0 = SetObj sample_columns"
    and c4: "snd (computeMarginalValue_st 4 0 5 sample_store) ! 4 = sample_store ! 4"
    and c5: "snd (computeMarginalValue_st 4 0 5 sample_store) ! 5 = EdgeArray sample_edges"
    and g0: "snd (getCurrentlyTestableEdges_st 0 sample_store) ! 0 = SetObj sample_columns"
    using w s0 s5 by (simp_all add: sample_store_length)
  have c6: "snd (computeMarginalValue_st 4 0 5 sample_store) ! 6 =
     SetObj (sample_columns \<union> {''glucose_cgm_mean'', ''glucose_smoothed'', ''glucose_raw'',
                                 ''insulin_smoothed'', ''insulin_raw''})"
    by (simp add: sample_store_call nth_append sample_store_length)
  have a6: "fst (augmentColumns_st \<lparr>co_id = ''cgm'', co_newDoseFamilies = 1,
                    co_newResponseFamilies = 2, co_newColumns = 3\<rparr> 0 sample_store) = Inr 6"
    by (simp only: sample_store_augment fst_conv)
  show ?thesis
    using sample_store_length s0 c0 c4 c5 c6 g0 a6 sample_store_classify by simp
qed

section \<open>Unknown family identifiers\<close>

text \<open>
  Claim C10 says that a family id without a catalog entry makes \<^verbatim>\<open>hasDoseData\<close> and
  \<^verbatim>\<open>hasResponseData\<close> return \<^verbatim>\<open>false\<close> and is skipped when the augmented column
  set is built. The guards \<^verbatim>\<open>if (!fam)\<close> and \<^verbatim>\<open>if (fam)\<close> do this for an id that
  reads as \<^verbatim>\<open>undefined\<close> (\<open>hasDoseData_undefined\<close>, \<open>hasResponseData_undefined\<close>,
  \<open>augmentColumns_eq\<close>). An id that names a property of \<^verbatim>\<open>Object.prototype\<close>, such
  as \<^verbatim>\<open>constructor\<close> or \<^verbatim>\<open>toString\<close>, has no catalog entry either, passes the
  guards and makes the call throw a TypeError.
\<close>

theorem inherited_family_id_throws:
  "map_of DOSE_FAMILIES ''constructor'' = None \<and>
   hasDoseData ''constructor'' sample_columns = Inl TypeError \<and>
   map_of RESPONSE_FAMILIES ''toString'' = None \<and>
   hasResponseData ''toString'' sample_columns = Inl TypeError \<and>
   newDoseFamilies sample_inherited = [''constructor''] \<and>
   computeMarginalValue sample_inherited sample_columns sample_edges = Inl TypeError"
  by code_simp

end
